theory Spec2Isabelle
  imports Complex_Main "HOL-Library.Word"
begin

unbundle bit_operations_syntax

section \<open>The DreamFocuser driver: data\<close>

text \<open>
  The driver (\<^verbatim>\<open>dreamfocuser.h\<close>, \<^verbatim>\<open>dreamfocuser.cpp\<close>) talks to the focuser in
  frames of eight bytes. A byte is an \<open>8 word\<close>, a \<^verbatim>\<open>uint32_t\<close> or \<^verbatim>\<open>int32_t\<close> a
  \<open>32 word\<close> (the two C types share the bit pattern; \<open>unat\<close> reads it as unsigned,
  \<open>sint\<close> as two's complement). A character literal of the source is the byte
  \<open>of_char (CHR ''M'')\<close>.
\<close>

type_synonym byte = "8 word"

text \<open>
  \<^verbatim>\<open>struct DreamFocuserCommand { char M = 'M'; char k; unsigned char a, b, c, d;
  unsigned char n = '\0'; unsigned char z; }\<close>. Record fields are global constants in
  HOL, so the one-letter fields carry the prefix \<open>cmd_\<close>.
\<close>

record DreamFocuserCommand =
  cmd_M :: byte
  cmd_k :: byte
  cmd_a :: byte
  cmd_b :: byte
  cmd_c :: byte
  cmd_d :: byte
  cmd_n :: byte
  cmd_z :: byte

text \<open>The status codes of the INDI property vectors and switches (\<^verbatim>\<open>indiapi.h\<close>).\<close>

datatype IPState = IPS_IDLE | IPS_OK | IPS_BUSY | IPS_ALERT

datatype ISState = ISS_OFF | ISS_ON

datatype FocusDirection = FOCUS_INWARD | FOCUS_OUTWARD

text \<open>The return codes of the serial helpers \<^verbatim>\<open>tty_read\<close> and \<^verbatim>\<open>tty_write\<close> (\<^verbatim>\<open>indicom.h\<close>).\<close>

datatype TTY_RESPONSE =
  TTY_OK | TTY_READ_ERROR | TTY_WRITE_ERROR | TTY_SELECT_ERROR | TTY_TIME_OUT
  | TTY_PORT_FAILURE | TTY_PARAM_ERROR | TTY_ERRNO | TTY_OVERFLOW

text \<open>
  The driver object. The first block holds the members of \<^verbatim>\<open>class DreamFocuser\<close> that the
  modelled functions touch; the second the members inherited from the framework
  (\<^verbatim>\<open>isConnected()\<close>, \<^verbatim>\<open>isSimulation()\<close>, the simulated readings and the property
  vectors, of which only the fields the modelled functions read or assign are kept;
  \<open>MaxPositionN_value\<close> is the configured maximum absolute position); the third is the serial
  line behind the descriptor \<^verbatim>\<open>fd\<close>:
  \<^item> \<open>tty_writes\<close> is the script of results of the coming calls of \<^verbatim>\<open>tty_write\<close>,
  \<^item> \<open>tty_reads\<close> the script of the coming calls of \<^verbatim>\<open>tty_read\<close>, each a return code and
    the bytes that arrived before the call returned,
  \<^item> \<open>tty_written\<close> the frames handed to \<^verbatim>\<open>tty_write\<close> so far, oldest first.
  A call that finds its script empty meets a dead line: the write fails with
  \<open>TTY_WRITE_ERROR\<close>, the read times out with no byte delivered.
  The C \<^verbatim>\<open>float\<close> and \<^verbatim>\<open>double\<close> values are modelled as exact reals: rounding is not
  part of the model.
\<close>

record DreamFocuser =
  currentTemperature :: real
  currentHumidity :: real
  currentPosition :: "32 word"
  isAbsolute :: bool
  isMoving :: bool
  currentResponse :: DreamFocuserCommand

  isConnected :: bool
  isSimulation :: bool
  simulatedTemperature :: real
  simulatedHumidity :: real
  simulatedPosition :: "32 word"
  MaxPositionN_value :: real
  FocusAbsPosNP_s :: IPState
  FocusAbsPosN_value :: real
  FocusRelPosNP_s :: IPState
  EnvironmentNP_s :: IPState
  EnvironmentN_0_value :: real
  EnvironmentN_1_value :: real
  StatusSP_s :: IPState
  StatusS_0_s :: ISState
  StatusS_1_s :: ISState

  tty_writes :: "TTY_RESPONSE list"
  tty_reads :: "(TTY_RESPONSE \<times> byte list) list"
  tty_written :: "DreamFocuserCommand list"

section \<open>The frame codec\<close>

text \<open>
  \<^verbatim>\<open>z = (c.M + c.k + c.a + c.b + c.c + c.d + c.n) & 0xff\<close>. The operands are promoted
  to \<^verbatim>\<open>int\<close>: the two plain \<^verbatim>\<open>char\<close> fields as signed characters, the others as
  unsigned ones. Seven such values never leave the range of \<^verbatim>\<open>int\<close>, so the sum is
  taken in \<open>int\<close>; the result is stored in an \<^verbatim>\<open>unsigned char\<close>.
\<close>

definition calculate_checksum :: "DreamFocuserCommand \<Rightarrow> byte" where
  "calculate_checksum c =
     word_of_int ((sint (cmd_M c) + sint (cmd_k c) + uint (cmd_a c) + uint (cmd_b c)
                   + uint (cmd_c c) + uint (cmd_d c) + uint (cmd_n c)) AND 0xff)"

text \<open>
  \<^verbatim>\<open>unsigned char *x = (unsigned char *)&l\<close>: the bytes of the \<^verbatim>\<open>uint32_t\<close> argument
  as they lie in memory. The driver is built for little-endian hosts, where \<^verbatim>\<open>x[0]\<close> is
  the least significant byte.
\<close>

definition x_byte :: "32 word \<Rightarrow> nat \<Rightarrow> byte" where
  "x_byte l i = ucast (drop_bit (8 * i) l)"

text \<open>
  The first half of \<^verbatim>\<open>send_command\<close>: the \<^verbatim>\<open>switch\<close> that fills the local frame
  \<^verbatim>\<open>c\<close>, then \<^verbatim>\<open>c.k = k; c.n = '\0'; c.z = calculate_checksum(c)\<close>. The \<^verbatim>\<open>default\<close> branch
  returns \<^verbatim>\<open>false\<close> before any frame exists: \<open>None\<close>.
\<close>

definition send_command_frame :: "byte \<Rightarrow> 32 word \<Rightarrow> DreamFocuserCommand option" where
  "send_command_frame k l =
     (let c0 = \<lparr>cmd_M = of_char (CHR ''M''), cmd_k = k, cmd_a = 0, cmd_b = 0, cmd_c = 0,
                cmd_d = 0, cmd_n = 0, cmd_z = 0\<rparr>;
          finish = (\<lambda>c. Some (c\<lparr>cmd_z := calculate_checksum c\<rparr>))
      in if k = of_char (CHR ''M'') \<or> k = of_char (CHR ''Z'') then
           finish (c0\<lparr>cmd_a := x_byte l 3, cmd_b := x_byte l 2, cmd_c := x_byte l 1,
                      cmd_d := x_byte l 0\<rparr>)
         else if k = of_char (CHR ''H'') \<or> k = of_char (CHR ''P'') \<or> k = of_char (CHR ''I'')
                 \<or> k = of_char (CHR ''T'') \<or> k = of_char (CHR ''W'') \<or> k = of_char (CHR ''G'')
                 \<or> k = of_char (CHR ''V'') then
           finish c0
         else if k = of_char (CHR ''R'') then
           finish (c0\<lparr>cmd_d := x_byte l 0\<rparr>)
         else None)"

text \<open>
  \<^verbatim>\<open>tty_write(fd, (char *)&c, sizeof(c), &nbytes_written)\<close>: the frame is handed to the
  line and the next scripted result comes back.
\<close>

definition tty_write :: "DreamFocuserCommand \<Rightarrow> DreamFocuser \<Rightarrow> TTY_RESPONSE \<times> DreamFocuser" where
  "tty_write c s =
     ((case tty_writes s of [] \<Rightarrow> TTY_WRITE_ERROR | r # rest \<Rightarrow> r),
      s\<lparr>tty_writes := tl (tty_writes s), tty_written := tty_written s @ [c]\<rparr>)"

text \<open>
  \<^verbatim>\<open>send_command\<close>. Under simulation nothing is written: the opcode, the zero byte and
  the checksum of the request are copied into \<^verbatim>\<open>currentResponse\<close>, whose payload bytes
  keep what they held. \<^verbatim>\<open>tcflush\<close> has no effect on the scripted line.
\<close>

definition send_command :: "byte \<Rightarrow> 32 word \<Rightarrow> DreamFocuser \<Rightarrow> bool \<times> DreamFocuser" where
  "send_command k l s =
     (case send_command_frame k l of
        None \<Rightarrow> (False, s)
      | Some c \<Rightarrow>
          if isSimulation s then
            (True, s\<lparr>currentResponse := (currentResponse s)\<lparr>cmd_k := k, cmd_n := 0, cmd_z := cmd_z c\<rparr>\<rparr>)
          else
            (case tty_write c s of
               (err_code, s1) \<Rightarrow> if err_code \<noteq> TTY_OK then (False, s1) else (True, s1)))"

section \<open>Reading a response\<close>

text \<open>
  \<^verbatim>\<open>tty_read(fd, (char *)&currentResponse, sizeof(currentResponse), 5, &nbytes_read)\<close>
  asks for eight bytes. The bytes that arrive, at most eight, are stored over the first
  bytes of \<^verbatim>\<open>currentResponse\<close> (eight one-byte fields, in declaration order); the bytes
  behind them keep what they held. The result is the return code and \<^verbatim>\<open>nbytes_read\<close>.
  \<open>tty_next_read\<close> is what the line holds for the coming call.
\<close>

definition store_bytes :: "byte list \<Rightarrow> DreamFocuserCommand \<Rightarrow> DreamFocuserCommand" where
  "store_bytes got r =
     (let pick = (\<lambda>i old. if i < length got then got ! i else old)
      in \<lparr>cmd_M = pick 0 (cmd_M r), cmd_k = pick 1 (cmd_k r), cmd_a = pick 2 (cmd_a r),
          cmd_b = pick 3 (cmd_b r), cmd_c = pick 4 (cmd_c r), cmd_d = pick 5 (cmd_d r),
          cmd_n = pick 6 (cmd_n r), cmd_z = pick 7 (cmd_z r)\<rparr>)"

definition tty_next_read :: "DreamFocuser \<Rightarrow> TTY_RESPONSE \<times> byte list" where
  "tty_next_read s = (case tty_reads s of [] \<Rightarrow> (TTY_TIME_OUT, []) | x # rest \<Rightarrow> x)"

definition tty_read :: "DreamFocuser \<Rightarrow> (TTY_RESPONSE \<times> nat) \<times> DreamFocuser" where
  "tty_read s =
     (case tty_next_read s of
        (r, bs) \<Rightarrow>
          (let got = take 8 bs
           in ((r, length got),
               s\<lparr>tty_reads := tl (tty_reads s),
                 currentResponse := store_bytes got (currentResponse s)\<rparr>)))"

text \<open>\<^verbatim>\<open>read_response\<close>, its checks in the order of the source.\<close>

definition read_response :: "DreamFocuser \<Rightarrow> bool \<times> DreamFocuser" where
  "read_response s =
     (if isSimulation s then (True, s)
      else
        (case tty_read s of
           ((err_code, nbytes_read), s1) \<Rightarrow>
             if err_code \<noteq> TTY_OK then (False, s1)
             else if nbytes_read \<noteq> 8 then (False, s1)
             else if calculate_checksum (currentResponse s1) \<noteq> cmd_z (currentResponse s1)
               then (False, s1)
             else if cmd_k (currentResponse s1) = of_char (CHR ''!'') then (False, s1)
             else if cmd_k (currentResponse s1) = of_char (CHR ''?'') then (False, s1)
             else (True, s1)))"

text \<open>\<^verbatim>\<open>dispatch_command\<close>: send, read, compare the echoed opcode.\<close>

definition dispatch_command :: "byte \<Rightarrow> 32 word \<Rightarrow> DreamFocuser \<Rightarrow> bool \<times> DreamFocuser" where
  "dispatch_command k l s =
     (case send_command k l s of
        (False, s1) \<Rightarrow> (False, s1)
      | (True, s1) \<Rightarrow>
          (case read_response s1 of
             (False, s2) \<Rightarrow> (False, s2)
           | (True, s2) \<Rightarrow> (cmd_k (currentResponse s2) = k, s2)))"

section \<open>The device operations\<close>

text \<open>
  \<^verbatim>\<open>(r.a<<24) | (r.b<<16) | (r.c<<8) | r.d\<close>, a 32-bit pattern, and
  \<^verbatim>\<open>(short int)((hi<<8) | lo)\<close>, the 16-bit pattern read as two's complement.
\<close>

definition payload32 :: "DreamFocuserCommand \<Rightarrow> 32 word" where
  "payload32 r =
     push_bit 24 (ucast (cmd_a r)) OR push_bit 16 (ucast (cmd_b r))
       OR push_bit 8 (ucast (cmd_c r)) OR ucast (cmd_d r)"

definition short_int :: "byte \<Rightarrow> byte \<Rightarrow> int" where
  "short_int hi lo = sint (ucast (push_bit 8 (ucast hi) OR ucast lo :: 32 word) :: 16 word)"

definition getTemperature :: "DreamFocuser \<Rightarrow> bool \<times> DreamFocuser" where
  "getTemperature s =
     (if isSimulation s then
        (True, s\<lparr>currentTemperature := simulatedTemperature s,
                 currentHumidity := simulatedHumidity s\<rparr>)
      else
        (case dispatch_command (of_char (CHR ''T'')) 0 s of
           (True, s1) \<Rightarrow>
             (True,
              s1\<lparr>currentTemperature :=
                    real_of_int (short_int (cmd_c (currentResponse s1)) (cmd_d (currentResponse s1)))
                      / 10 + 273.15,
                  currentHumidity :=
                    real_of_int (short_int (cmd_a (currentResponse s1)) (cmd_b (currentResponse s1)))
                      / 10\<rparr>)
         | (False, s1) \<Rightarrow> (False, s1)))"

definition getStatus :: "DreamFocuser \<Rightarrow> bool \<times> DreamFocuser" where
  "getStatus s =
     (if \<not> isSimulation s then
        (case dispatch_command (of_char (CHR ''I'')) 0 s of
           (False, s1) \<Rightarrow> (False, s1)
         | (True, s1) \<Rightarrow>
             (let s2 = s1\<lparr>isMoving := (cmd_d (currentResponse s1) = 1)\<rparr>
              in case dispatch_command (of_char (CHR ''W'')) 0 s2 of
                   (False, s3) \<Rightarrow> (False, s3)
                 | (True, s3) \<Rightarrow> (True, s3\<lparr>isAbsolute := (cmd_d (currentResponse s3) = 1)\<rparr>)))
      else (True, s))"

definition getPosition :: "DreamFocuser \<Rightarrow> bool \<times> DreamFocuser" where
  "getPosition s =
     (if isSimulation s then (True, s\<lparr>currentPosition := simulatedPosition s\<rparr>)
      else
        (case dispatch_command (of_char (CHR ''P'')) 0 s of
           (True, s1) \<Rightarrow> (True, s1\<lparr>currentPosition := payload32 (currentResponse s1)\<rparr>)
         | (False, s1) \<Rightarrow> (False, s1)))"

definition setPosition :: "32 word \<Rightarrow> DreamFocuser \<Rightarrow> bool \<times> DreamFocuser" where
  "setPosition position s =
     (case dispatch_command (of_char (CHR ''M'')) position s of
        (True, s1) \<Rightarrow> (payload32 (currentResponse s1) = position, s1)
      | (False, s1) \<Rightarrow> (False, s1))"

definition setSync :: "32 word \<Rightarrow> DreamFocuser \<Rightarrow> bool \<times> DreamFocuser" where
  "setSync position s =
     (case dispatch_command (of_char (CHR ''Z'')) position s of
        (True, s1) \<Rightarrow> (payload32 (currentResponse s1) = position, s1)
      | (False, s1) \<Rightarrow> (False, s1))"

definition setPark :: "DreamFocuser \<Rightarrow> bool \<times> DreamFocuser" where
  "setPark s = dispatch_command (of_char (CHR ''G'')) 0 s"

definition AbortFocuser :: "DreamFocuser \<Rightarrow> bool \<times> DreamFocuser" where
  "AbortFocuser s = dispatch_command (of_char (CHR ''H'')) 0 s"

text \<open>
  \<^verbatim>\<open>MoveAbsFocuser(uint32_t ticks)\<close> hands \<^verbatim>\<open>ticks\<close> to \<^verbatim>\<open>setPosition(int32_t)\<close>: the
  conversion keeps the 32 bits. \<^verbatim>\<open>MoveRelFocuser\<close> computes
  \<^verbatim>\<open>currentPosition + ((int32_t)ticks * (dir == FOCUS_INWARD ? -1 : 1))\<close> in 32-bit
  arithmetic, which wraps around.
\<close>

definition MoveAbsFocuser :: "32 word \<Rightarrow> DreamFocuser \<Rightarrow> IPState \<times> DreamFocuser" where
  "MoveAbsFocuser ticks s =
     (case setPosition ticks s of
        (True, s1) \<Rightarrow> (IPS_OK, s1\<lparr>FocusAbsPosNP_s := IPS_OK\<rparr>)
      | (False, s1) \<Rightarrow> (IPS_ALERT, s1))"

definition MoveRelFocuser :: "FocusDirection \<Rightarrow> 32 word \<Rightarrow> DreamFocuser \<Rightarrow> IPState \<times> DreamFocuser" where
  "MoveRelFocuser dir ticks s =
     (let finalTicks = currentPosition s + ticks * (if dir = FOCUS_INWARD then - 1 else 1)
      in case setPosition finalTicks s of
           (True, s1) \<Rightarrow> (IPS_OK, s1\<lparr>FocusRelPosNP_s := IPS_OK\<rparr>)
         | (False, s1) \<Rightarrow> (IPS_ALERT, s1))"

section \<open>The polling tick\<close>

text \<open>
  \<^verbatim>\<open>TimerHit\<close> in the three blocks of its body that follow a successful \<^verbatim>\<open>getStatus\<close>:
  the status flags, the environment reading, the position reading. \<open>oldPosition\<close> is the
  snapshot taken on entry. Publishing the vectors (\<^verbatim>\<open>IDSetNumber\<close>, \<^verbatim>\<open>IDSetSwitch\<close>) and
  re-arming the timer change none of the modelled fields.
\<close>

definition TimerHit_status :: "DreamFocuser \<Rightarrow> DreamFocuser" where
  "TimerHit_status s1 =
     (let s2 = s1\<lparr>StatusSP_s := IPS_OK\<rparr>;
          s3 = (if isMoving s2 then s2\<lparr>FocusAbsPosNP_s := IPS_BUSY, StatusS_1_s := ISS_ON\<rparr>
                else (if FocusAbsPosNP_s s2 \<noteq> IPS_IDLE then s2\<lparr>FocusAbsPosNP_s := IPS_OK\<rparr>
                      else s2)\<lparr>StatusS_1_s := ISS_OFF\<rparr>)
      in if isAbsolute s3 then s3\<lparr>StatusS_0_s := ISS_ON\<rparr> else s3\<lparr>StatusS_0_s := ISS_OFF\<rparr>)"

definition TimerHit_environment :: "DreamFocuser \<Rightarrow> DreamFocuser" where
  "TimerHit_environment s =
     (case getTemperature s of
        (True, t) \<Rightarrow>
          t\<lparr>EnvironmentNP_s :=
               (if EnvironmentN_0_value t \<noteq> currentTemperature t
                   \<or> EnvironmentN_1_value t \<noteq> currentHumidity t then IPS_BUSY else IPS_OK),
            EnvironmentN_0_value := currentTemperature t,
            EnvironmentN_1_value := currentHumidity t\<rparr>
      | (False, t) \<Rightarrow> t\<lparr>EnvironmentNP_s := IPS_ALERT\<rparr>)"

definition TimerHit_position :: "32 word \<Rightarrow> DreamFocuser \<Rightarrow> DreamFocuser" where
  "TimerHit_position oldPosition s =
     (if FocusAbsPosNP_s s \<noteq> IPS_IDLE then
        (case getPosition s of
           (True, p) \<Rightarrow>
             if oldPosition \<noteq> currentPosition p then
               p\<lparr>FocusAbsPosNP_s := IPS_BUSY, StatusS_1_s := ISS_ON,
                 FocusAbsPosN_value := real_of_int (sint (currentPosition p))\<rparr>
             else p\<lparr>StatusS_1_s := ISS_OFF, FocusAbsPosNP_s := IPS_OK\<rparr>
         | (False, p) \<Rightarrow> p\<lparr>FocusAbsPosNP_s := IPS_ALERT\<rparr>)
      else s)"

definition TimerHit :: "DreamFocuser \<Rightarrow> DreamFocuser" where
  "TimerHit s =
     (if \<not> isConnected s then s
      else
        (let oldPosition = currentPosition s
         in case getStatus s of
              (True, s1) \<Rightarrow>
                TimerHit_position oldPosition (TimerHit_environment (TimerHit_status s1))
            | (False, s1) \<Rightarrow> s1\<lparr>StatusSP_s := IPS_ALERT\<rparr>))"

section \<open>What an exchange may change\<close>

text \<open>
  \<open>same_driver s s'\<close>: the driver \<open>s'\<close> differs from \<open>s\<close> at most in the serial line and
  in the response buffer. \<open>cached s\<close>: the five cached readings of the device.
\<close>

definition same_driver :: "DreamFocuser \<Rightarrow> DreamFocuser \<Rightarrow> bool" where
  "same_driver s s' \<longleftrightarrow>
     s' = s\<lparr>tty_writes := tty_writes s', tty_reads := tty_reads s',
            tty_written := tty_written s', currentResponse := currentResponse s'\<rparr>"

definition cached :: "DreamFocuser \<Rightarrow> 32 word \<times> bool \<times> bool \<times> real \<times> real" where
  "cached s =
     (currentPosition s, isMoving s, isAbsolute s, currentTemperature s, currentHumidity s)"

section \<open>Example drivers\<close>

text \<open>
  A driver as it stands after construction and \<^verbatim>\<open>initProperties\<close>: not moving, not
  synchronised, the simulated readings 20.0, 1.0 and 2000, the maximum position 300000,
  every vector idle. The members the constructor leaves unset are zero. The arguments are
  the simulation switch and the two scripts of the serial line.
\<close>

definition example_driver ::
  "bool \<Rightarrow> TTY_RESPONSE list \<Rightarrow> (TTY_RESPONSE \<times> byte list) list \<Rightarrow> DreamFocuser" where
  "example_driver sim ws rs =
     \<lparr>currentTemperature = 0, currentHumidity = 0, currentPosition = 0, isAbsolute = False,
      isMoving = False,
      currentResponse = \<lparr>cmd_M = of_char (CHR ''M''), cmd_k = 0, cmd_a = 0, cmd_b = 0,
                          cmd_c = 0, cmd_d = 0, cmd_n = 0, cmd_z = 0\<rparr>,
      isConnected = True, isSimulation = sim, simulatedTemperature = 20, simulatedHumidity = 1,
      simulatedPosition = 2000, MaxPositionN_value = 300000, FocusAbsPosNP_s = IPS_IDLE,
      FocusAbsPosN_value = 0, FocusRelPosNP_s = IPS_IDLE, EnvironmentNP_s = IPS_IDLE,
      EnvironmentN_0_value = 0, EnvironmentN_1_value = 0, StatusSP_s = IPS_IDLE,
      StatusS_0_s = ISS_OFF, StatusS_1_s = ISS_OFF,
      tty_writes = ws, tty_reads = rs, tty_written = []\<rparr>"

text \<open>
  A connected driver on a line where the device answers twelve requests, the four of a
  tick (I, W, T, P) three times over: moving, then moving, then idle; absolute each time;
  85.0 per cent and -2.0 degrees each time; the positions 100, 200 and 200.
\<close>

definition polling_driver :: DreamFocuser where
  "polling_driver =
     example_driver False
       [TTY_OK, TTY_OK, TTY_OK, TTY_OK, TTY_OK, TTY_OK, TTY_OK, TTY_OK, TTY_OK, TTY_OK,
        TTY_OK, TTY_OK]
       [(TTY_OK, [0x4D, 0x49, 0, 0, 0, 1, 0, 0x97]), (TTY_OK, [0x4D, 0x57, 0, 0, 0, 1, 0, 0xA5]),
        (TTY_OK, [0x4D, 0x54, 3, 0x52, 0xFF, 0xEC, 0, 0xE1]),
        (TTY_OK, [0x4D, 0x50, 0, 0, 0, 0x64, 0, 1]),
        (TTY_OK, [0x4D, 0x49, 0, 0, 0, 1, 0, 0x97]), (TTY_OK, [0x4D, 0x57, 0, 0, 0, 1, 0, 0xA5]),
        (TTY_OK, [0x4D, 0x54, 3, 0x52, 0xFF, 0xEC, 0, 0xE1]),
        (TTY_OK, [0x4D, 0x50, 0, 0, 0, 0xC8, 0, 0x65]),
        (TTY_OK, [0x4D, 0x49, 0, 0, 0, 0, 0, 0x96]), (TTY_OK, [0x4D, 0x57, 0, 0, 0, 1, 0, 0xA5]),
        (TTY_OK, [0x4D, 0x54, 3, 0x52, 0xFF, 0xEC, 0, 0xE1]),
        (TTY_OK, [0x4D, 0x50, 0, 0, 0, 0xC8, 0, 0x65])]"

section \<open>Request frames\<close>

text \<open>The checksum is the sum of the seven bytes in 8-bit arithmetic, however \<^verbatim>\<open>char\<close> is promoted.\<close>

lemma and_255_word: "(word_of_int (i AND 255) :: byte) = word_of_int i"
proof -
  have "i AND 255 = take_bit 8 i"
    by (simp add: take_bit_eq_mask mask_eq_exp_minus_1)
  then show ?thesis
    by (simp add: word_of_int_eq_iff)
qed

lemma calculate_checksum_sum:
  "calculate_checksum c = cmd_M c + cmd_k c + cmd_a c + cmd_b c + cmd_c c + cmd_d c + cmd_n c"
  unfolding calculate_checksum_def and_255_word
  by simp

lemma unat_sum7:
  "unat (m + k + a + b + c + d + n :: byte)
     = (unat m + unat k + unat a + unat b + unat c + unat d + unat n) mod 256"
  by (simp add: unat_word_ariths mod_simps)

lemma send_command_frame_Some:
  assumes "send_command_frame k l = Some c"
  shows "cmd_M c = of_char (CHR ''M'')" and "cmd_k c = k" and "cmd_n c = 0"
    and "cmd_z c = cmd_M c + cmd_k c + cmd_a c + cmd_b c + cmd_c c + cmd_d c + cmd_n c"
  using assms
  by (auto simp add: send_command_frame_def Let_def calculate_checksum_sum split: if_splits)

lemma send_command_written:
  assumes "\<not> isSimulation s" and "send_command_frame k l = Some c"
  shows "tty_written (snd (send_command k l s)) = tty_written s @ [c]"
  using assms
  by (simp add: send_command_def tty_write_def)

text \<open>
  Claim C1. For each of the ten opcodes M, H, P, I, T, R, W, Z, V, G and every 32-bit
  argument, \<^verbatim>\<open>send_command\<close> builds a frame, and outside simulation this frame is what it
  hands to the line. Its byte 0 is \<open>0x4D\<close>, its byte 6 is 0, and its byte 7 is the sum of
  bytes 0 to 6, read as unsigned numbers, modulo 256.
\<close>

theorem send_command_well_formed:
  assumes "k \<in> of_char ` {CHR ''M'', CHR ''H'', CHR ''P'', CHR ''I'', CHR ''T'', CHR ''R'',
                          CHR ''W'', CHR ''Z'', CHR ''V'', CHR ''G''}"
  shows "\<exists>c. send_command_frame k l = Some c
           \<and> (\<not> isSimulation s \<longrightarrow> tty_written (snd (send_command k l s)) = tty_written s @ [c])
           \<and> cmd_M c = 0x4D \<and> cmd_n c = 0
           \<and> unat (cmd_z c)
               = (unat (cmd_M c) + unat (cmd_k c) + unat (cmd_a c) + unat (cmd_b c)
                  + unat (cmd_c c) + unat (cmd_d c) + unat (cmd_n c)) mod 256"
proof -
  from assms obtain c where c: "send_command_frame k l = Some c"
    by (auto simp add: send_command_frame_def Let_def)
  note f = send_command_frame_Some [OF c]
  have "cmd_M c = 0x4D"
    using f(1) by simp
  moreover have "unat (cmd_z c)
      = (unat (cmd_M c) + unat (cmd_k c) + unat (cmd_a c) + unat (cmd_b c)
         + unat (cmd_c c) + unat (cmd_d c) + unat (cmd_n c)) mod 256"
    by (subst f(4)) (rule unat_sum7)
  ultimately show ?thesis
    using c f(3) send_command_written [OF _ c] by blast
qed

text \<open>The read-position request of the specification: \<^verbatim>\<open>4D 50 00 00 00 00 00 9D\<close>.\<close>

theorem send_command_well_formed_witness:
  "(of_char (CHR ''P'') :: byte)
     \<in> of_char ` {CHR ''M'', CHR ''H'', CHR ''P'', CHR ''I'', CHR ''T'', CHR ''R'',
                  CHR ''W'', CHR ''Z'', CHR ''V'', CHR ''G''}
   \<and> \<not> isSimulation (example_driver False [TTY_OK] [])
   \<and> tty_written (snd (send_command (of_char (CHR ''P'')) 0 (example_driver False [TTY_OK] [])))
       = [\<lparr>cmd_M = 0x4D, cmd_k = 0x50, cmd_a = 0, cmd_b = 0, cmd_c = 0, cmd_d = 0,
           cmd_n = 0, cmd_z = 0x9D\<rparr>]"
proof -
  have h: "(of_char (CHR ''P'') :: byte)
     \<in> of_char ` {CHR ''M'', CHR ''H'', CHR ''P'', CHR ''I'', CHR ''T'', CHR ''R'',
                  CHR ''W'', CHR ''Z'', CHR ''V'', CHR ''G''}"
    by simp
  have s: "\<not> isSimulation (example_driver False [TTY_OK] [])"
    by (simp add: example_driver_def)
  from send_command_well_formed [OF h, of 0 "example_driver False [TTY_OK] []"] s
  obtain c where c: "send_command_frame (of_char (CHR ''P'')) 0 = Some c"
    and w: "tty_written (snd (send_command (of_char (CHR ''P'')) 0
                               (example_driver False [TTY_OK] [])))
              = tty_written (example_driver False [TTY_OK] []) @ [c]"
    by blast
  have "send_command_frame (of_char (CHR ''P'')) 0
          = Some \<lparr>cmd_M = 0x4D, cmd_k = 0x50, cmd_a = 0, cmd_b = 0, cmd_c = 0, cmd_d = 0,
                  cmd_n = 0, cmd_z = 0x9D\<rparr>"
    by (simp add: send_command_frame_def Let_def calculate_checksum_def)
  with c w h s show ?thesis
    by (simp add: example_driver_def)
qed

lemma x_byte_be:
  "push_bit 24 (ucast (x_byte l 3)) OR push_bit 16 (ucast (x_byte l 2))
     OR push_bit 8 (ucast (x_byte l 1)) OR ucast (x_byte l 0) = l"
proof (rule bit_word_eqI)
  fix n :: nat
  assume "n < LENGTH(32)"
  then have n: "n < 32"
    by simp
  consider "n < 8" | "8 \<le> n" "n < 16" | "16 \<le> n" "n < 24" | "24 \<le> n" "n < 32"
    using n by linarith
  then show "bit (push_bit 24 (ucast (x_byte l 3)) OR push_bit 16 (ucast (x_byte l 2))
                  OR push_bit 8 (ucast (x_byte l 1)) OR ucast (x_byte l 0) :: 32 word) n
             = bit l n"
    by cases (auto simp add: x_byte_def bit_simps)
qed

lemma send_command_frame_payload:
  assumes "k = of_char (CHR ''M'') \<or> k = of_char (CHR ''Z'')"
  shows "\<exists>c. send_command_frame k p = Some c \<and> cmd_k c = k \<and> payload32 c = p"
  using assms
  by (auto simp add: send_command_frame_def Let_def payload32_def
        x_byte_be [unfolded One_nat_def])

text \<open>
  Claim C2. For the opcodes M and Z and every 32-bit payload \<open>p\<close>, the frame that
  \<^verbatim>\<open>send_command\<close> builds (and hands to the line outside simulation) carries \<open>p\<close>
  big-endian: \<^verbatim>\<open>(a<<24)|(b<<16)|(c<<8)|d\<close> is \<open>p\<close>, with \<open>a\<close> the most significant byte
  of \<open>p\<close> and \<open>d\<close> the least significant one.
\<close>

theorem send_command_big_endian:
  assumes "k = of_char (CHR ''M'') \<or> k = of_char (CHR ''Z'')"
  shows "\<exists>c. send_command_frame k p = Some c
           \<and> (\<not> isSimulation s \<longrightarrow> tty_written (snd (send_command k p s)) = tty_written s @ [c])
           \<and> push_bit 24 (ucast (cmd_a c)) OR push_bit 16 (ucast (cmd_b c))
               OR push_bit 8 (ucast (cmd_c c)) OR ucast (cmd_d c) = p
           \<and> cmd_a c = ucast (drop_bit 24 p) \<and> cmd_d c = ucast p"
proof -
  from send_command_frame_payload [OF assms, of p]
  obtain c where c: "send_command_frame k p = Some c" and p: "payload32 c = p"
    by blast
  have "cmd_a c = ucast (drop_bit 24 p) \<and> cmd_d c = ucast p"
    using c assms by (auto simp add: send_command_frame_def Let_def x_byte_def)
  then show ?thesis
    using c p send_command_written [OF _ c] by (auto simp add: payload32_def)
qed

text \<open>A move to -32 goes out as \<^verbatim>\<open>4D 4D FF FF FF E0 00 77\<close>.\<close>

theorem send_command_big_endian_witness:
  "((of_char (CHR ''M'') :: byte) = of_char (CHR ''M'')
      \<or> (of_char (CHR ''M'') :: byte) = of_char (CHR ''Z''))
   \<and> \<not> isSimulation (example_driver False [TTY_OK] [])
   \<and> tty_written (snd (send_command (of_char (CHR ''M'')) (- 32)
                         (example_driver False [TTY_OK] [])))
       = [\<lparr>cmd_M = 0x4D, cmd_k = 0x4D, cmd_a = 0xFF, cmd_b = 0xFF, cmd_c = 0xFF, cmd_d = 0xE0,
           cmd_n = 0, cmd_z = 0x77\<rparr>]"
proof -
  have h: "(of_char (CHR ''M'') :: byte) = of_char (CHR ''M'')
             \<or> (of_char (CHR ''M'') :: byte) = of_char (CHR ''Z'')"
    by simp
  have s: "\<not> isSimulation (example_driver False [TTY_OK] [])"
    by (simp add: example_driver_def)
  from send_command_big_endian [OF h, of "- 32" "example_driver False [TTY_OK] []"] s
  obtain c where c: "send_command_frame (of_char (CHR ''M'')) (- 32) = Some c"
    and w: "tty_written (snd (send_command (of_char (CHR ''M'')) (- 32)
                               (example_driver False [TTY_OK] [])))
              = tty_written (example_driver False [TTY_OK] []) @ [c]"
    by blast
  have "send_command_frame (of_char (CHR ''M'')) (- 32)
          = Some \<lparr>cmd_M = 0x4D, cmd_k = 0x4D, cmd_a = 0xFF, cmd_b = 0xFF, cmd_c = 0xFF,
                  cmd_d = 0xE0, cmd_n = 0, cmd_z = 0x77\<rparr>"
    by (simp add: send_command_frame_def Let_def calculate_checksum_def x_byte_def)
  with c w h s show ?thesis
    by (simp add: example_driver_def)
qed

section \<open>What an exchange leaves alone\<close>

lemma same_driver_refl: "same_driver s s"
  by (simp add: same_driver_def)

lemma same_driver_trans: "same_driver s s' \<Longrightarrow> same_driver s' s'' \<Longrightarrow> same_driver s s''"
proof -
  assume a: "same_driver s s'" and b: "same_driver s' s''"
  from b have "s'' = s'\<lparr>tty_writes := tty_writes s'', tty_reads := tty_reads s'',
            tty_written := tty_written s'', currentResponse := currentResponse s''\<rparr>"
    by (simp add: same_driver_def)
  also from a have "s' = s\<lparr>tty_writes := tty_writes s', tty_reads := tty_reads s',
            tty_written := tty_written s', currentResponse := currentResponse s'\<rparr>"
    by (simp add: same_driver_def)
  finally show ?thesis
    by (simp add: same_driver_def)
qed

lemma same_driver_fields:
  assumes "same_driver s s'"
  shows "currentPosition s' = currentPosition s" and "isMoving s' = isMoving s"
    and "isAbsolute s' = isAbsolute s" and "currentTemperature s' = currentTemperature s"
    and "currentHumidity s' = currentHumidity s" and "isSimulation s' = isSimulation s"
    and "isConnected s' = isConnected s" and "FocusAbsPosNP_s s' = FocusAbsPosNP_s s"
    and "simulatedPosition s' = simulatedPosition s"
proof -
  from assms have e: "s' = s\<lparr>tty_writes := tty_writes s', tty_reads := tty_reads s',
            tty_written := tty_written s', currentResponse := currentResponse s'\<rparr>"
    by (simp add: same_driver_def)
  show "currentPosition s' = currentPosition s" by (subst e) simp
  show "isMoving s' = isMoving s" by (subst e) simp
  show "isAbsolute s' = isAbsolute s" by (subst e) simp
  show "currentTemperature s' = currentTemperature s" by (subst e) simp
  show "currentHumidity s' = currentHumidity s" by (subst e) simp
  show "isSimulation s' = isSimulation s" by (subst e) simp
  show "isConnected s' = isConnected s" by (subst e) simp
  show "FocusAbsPosNP_s s' = FocusAbsPosNP_s s" by (subst e) simp
  show "simulatedPosition s' = simulatedPosition s" by (subst e) simp
qed

lemma same_driver_cached: "same_driver s s' \<Longrightarrow> cached s' = cached s"
  by (simp add: cached_def same_driver_fields)

lemma same_driver_send_command: "same_driver s (snd (send_command k l s))"
  by (simp add: send_command_def tty_write_def same_driver_def split: option.splits)

lemma read_response_state:
  "snd (read_response s) = (if isSimulation s then s else snd (tty_read s))"
  by (simp add: read_response_def split: prod.splits)

lemma same_driver_tty_read: "same_driver s (snd (tty_read s))"
  by (simp add: tty_read_def same_driver_def Let_def split: prod.splits)

lemma same_driver_read_response: "same_driver s (snd (read_response s))"
  by (simp add: read_response_state same_driver_tty_read same_driver_refl)

lemma same_driver_dispatch_command: "same_driver s (snd (dispatch_command k l s))"
proof -
  obtain r1 s1 where 1: "send_command k l s = (r1, s1)" by fastforce
  obtain r2 s2 where 2: "read_response s1 = (r2, s2)" by fastforce
  from 1 same_driver_send_command [of s k l] have a: "same_driver s s1" by simp
  from 2 same_driver_read_response [of s1] have b: "same_driver s1 s2" by simp
  show ?thesis
    using 1 2 a same_driver_trans [OF a b] by (cases r1; cases r2) (simp_all add: dispatch_command_def)
qed

section \<open>Responses\<close>

lemma store_bytes_8:
  assumes "length got = 8"
  shows "[cmd_M (store_bytes got r), cmd_k (store_bytes got r), cmd_a (store_bytes got r),
          cmd_b (store_bytes got r), cmd_c (store_bytes got r), cmd_d (store_bytes got r),
          cmd_n (store_bytes got r), cmd_z (store_bytes got r)] = got"
proof -
  have "length got = Suc (Suc (Suc (Suc (Suc (Suc (Suc (Suc 0)))))))"
    using assms by simp
  then obtain m k a b c d n z where "got = [m, k, a, b, c, d, n, z]"
    by (auto simp add: length_Suc_conv)
  then show ?thesis
    by (simp add: store_bytes_def)
qed

lemma calculate_checksum_differs_iff:
  "calculate_checksum r \<noteq> cmd_z r
     \<longleftrightarrow> unat (cmd_z r)
           \<noteq> (unat (cmd_M r) + unat (cmd_k r) + unat (cmd_a r) + unat (cmd_b r)
               + unat (cmd_c r) + unat (cmd_d r) + unat (cmd_n r)) mod 256"
proof -
  have "calculate_checksum r \<noteq> cmd_z r \<longleftrightarrow> unat (calculate_checksum r) \<noteq> unat (cmd_z r)"
    by (simp add: word_unat_eq_iff)
  also have "unat (calculate_checksum r)
      = (unat (cmd_M r) + unat (cmd_k r) + unat (cmd_a r) + unat (cmd_b r)
         + unat (cmd_c r) + unat (cmd_d r) + unat (cmd_n r)) mod 256"
    by (simp only: calculate_checksum_sum unat_sum7)
  finally show ?thesis
    by (simp add: eq_commute)
qed

text \<open>
  Claim C3. Outside simulation, let the line hold the return code \<open>err_code\<close> and the
  bytes \<open>bs\<close> for the coming read, where \<^verbatim>\<open>tty_read\<close> reports an error only if fewer than
  the eight bytes asked for arrived, and let \<open>r\<close> be the response buffer after the read.
  Then \<^verbatim>\<open>read_response\<close> returns \<^verbatim>\<open>false\<close> exactly when fewer than eight bytes arrived,
  or the byte \<open>z\<close> of \<open>r\<close> is not the sum of its bytes 0 to 6, read as unsigned numbers,
  modulo 256, or its opcode is \<open>!\<close>, or its opcode is \<open>?\<close>. When it returns \<^verbatim>\<open>true\<close>,
  \<^verbatim>\<open>currentResponse\<close> is \<open>r\<close> and its eight fields are the eight bytes that arrived.
\<close>

theorem read_response_fails_iff:
  assumes "\<not> isSimulation s"
    and "tty_next_read s = (err_code, bs)"
    and "err_code = TTY_OK \<or> length bs < 8"
    and "r = store_bytes (take 8 bs) (currentResponse s)"
  shows "((fst (read_response s) = False)
            \<longleftrightarrow> (length bs < 8
                 \<or> unat (cmd_z r)
                     \<noteq> (unat (cmd_M r) + unat (cmd_k r) + unat (cmd_a r) + unat (cmd_b r)
                         + unat (cmd_c r) + unat (cmd_d r) + unat (cmd_n r)) mod 256
                 \<or> cmd_k r = of_char (CHR ''!'') \<or> cmd_k r = of_char (CHR ''?'')))
         \<and> (fst (read_response s) \<longrightarrow>
              currentResponse (snd (read_response s)) = r
              \<and> [cmd_M r, cmd_k r, cmd_a r, cmd_b r, cmd_c r, cmd_d r, cmd_n r, cmd_z r]
                  = take 8 bs)"
proof -
  have len: "length (take 8 bs) \<noteq> 8 \<longleftrightarrow> length bs < 8"
    by auto
  have "(fst (read_response s) = False)
            \<longleftrightarrow> (length bs < 8 \<or> calculate_checksum r \<noteq> cmd_z r
                 \<or> cmd_k r = of_char (CHR ''!'') \<or> cmd_k r = of_char (CHR ''?''))"
    using assms len by (auto simp add: read_response_def tty_read_def Let_def)
  then have iff: "(fst (read_response s) = False)
            \<longleftrightarrow> (length bs < 8
                 \<or> unat (cmd_z r)
                     \<noteq> (unat (cmd_M r) + unat (cmd_k r) + unat (cmd_a r) + unat (cmd_b r)
                         + unat (cmd_c r) + unat (cmd_d r) + unat (cmd_n r)) mod 256
                 \<or> cmd_k r = of_char (CHR ''!'') \<or> cmd_k r = of_char (CHR ''?''))"
    by (simp only: calculate_checksum_differs_iff)
  have "currentResponse (snd (read_response s)) = r
          \<and> [cmd_M r, cmd_k r, cmd_a r, cmd_b r, cmd_c r, cmd_d r, cmd_n r, cmd_z r] = take 8 bs"
    if ok: "fst (read_response s)"
  proof -
    from ok iff len have l8: "length (take 8 bs) = 8"
      by auto
    have "currentResponse (snd (read_response s)) = r"
      using assms by (auto simp add: read_response_def tty_read_def Let_def)
    with store_bytes_8 [OF l8, of "currentResponse s"] assms(4) show ?thesis
      by simp
  qed
  with iff show ?thesis
    by blast
qed

text \<open>
  The position response \<^verbatim>\<open>4D 50 00 01 F4 00 00 92\<close> is accepted: its last byte is the sum
  \<open>0x4D + 0x50 + 0x01 + 0xF4 = 0x192\<close> modulo 256. The response
  \<^verbatim>\<open>4D 50 00 00 00 00 00 00\<close> is refused: its last byte is 0 where the sum is \<open>0x9D\<close>.
\<close>

theorem read_response_fails_iff_witness:
  "\<not> isSimulation (example_driver False [] [(TTY_OK, [0x4D, 0x50, 0, 1, 0xF4, 0, 0, 0x92])])
   \<and> tty_next_read (example_driver False [] [(TTY_OK, [0x4D, 0x50, 0, 1, 0xF4, 0, 0, 0x92])])
       = (TTY_OK, [0x4D, 0x50, 0, 1, 0xF4, 0, 0, 0x92])
   \<and> fst (read_response
            (example_driver False [] [(TTY_OK, [0x4D, 0x50, 0, 1, 0xF4, 0, 0, 0x92])]))
   \<and> currentResponse
        (snd (read_response
               (example_driver False [] [(TTY_OK, [0x4D, 0x50, 0, 1, 0xF4, 0, 0, 0x92])])))
       = \<lparr>cmd_M = 0x4D, cmd_k = 0x50, cmd_a = 0, cmd_b = 1, cmd_c = 0xF4, cmd_d = 0,
          cmd_n = 0, cmd_z = 0x92\<rparr>
   \<and> \<not> fst (read_response
              (example_driver False [] [(TTY_OK, [0x4D, 0x50, 0, 0, 0, 0, 0, 0])]))"
proof -
  let ?bs = "[0x4D, 0x50, 0, 1, 0xF4, 0, 0, 0x92] :: byte list"
  let ?s = "example_driver False [] [(TTY_OK, ?bs)]"
  let ?r = "\<lparr>cmd_M = 0x4D, cmd_k = 0x50, cmd_a = 0, cmd_b = 1, cmd_c = 0xF4, cmd_d = 0,
             cmd_n = 0, cmd_z = 0x92\<rparr>"
  have 1: "\<not> isSimulation ?s"
    by (simp add: example_driver_def)
  have 2: "tty_next_read ?s = (TTY_OK, ?bs)"
    by (simp add: example_driver_def tty_next_read_def)
  have 3: "TTY_OK = TTY_OK \<or> length ?bs < 8"
    by simp
  have 4: "?r = store_bytes (take 8 ?bs) (currentResponse ?s)"
    by (simp add: store_bytes_def)
  have 5: "\<not> (length ?bs < 8
               \<or> unat (cmd_z ?r)
                   \<noteq> (unat (cmd_M ?r) + unat (cmd_k ?r) + unat (cmd_a ?r) + unat (cmd_b ?r)
                       + unat (cmd_c ?r) + unat (cmd_d ?r) + unat (cmd_n ?r)) mod 256
               \<or> cmd_k ?r = of_char (CHR ''!'') \<or> cmd_k ?r = of_char (CHR ''?''))"
    by simp
  from read_response_fails_iff [OF 1 2 3 4] 5 have good: "fst (read_response ?s)"
    and "fst (read_response ?s) \<longrightarrow> currentResponse (snd (read_response ?s)) = ?r"
    by blast+
  then have buf: "currentResponse (snd (read_response ?s)) = ?r"
    by blast
  let ?bs' = "[0x4D, 0x50, 0, 0, 0, 0, 0, 0] :: byte list"
  let ?s' = "example_driver False [] [(TTY_OK, ?bs')]"
  let ?r' = "\<lparr>cmd_M = 0x4D, cmd_k = 0x50, cmd_a = 0, cmd_b = 0, cmd_c = 0, cmd_d = 0,
              cmd_n = 0, cmd_z = 0\<rparr>"
  have b1: "\<not> isSimulation ?s'"
    by (simp add: example_driver_def)
  have b2: "tty_next_read ?s' = (TTY_OK, ?bs')"
    by (simp add: example_driver_def tty_next_read_def)
  have b3: "TTY_OK = TTY_OK \<or> length ?bs' < 8"
    by simp
  have b4: "?r' = store_bytes (take 8 ?bs') (currentResponse ?s')"
    by (simp add: store_bytes_def)
  have b5: "unat (cmd_z ?r')
              \<noteq> (unat (cmd_M ?r') + unat (cmd_k ?r') + unat (cmd_a ?r') + unat (cmd_b ?r')
                  + unat (cmd_c ?r') + unat (cmd_d ?r') + unat (cmd_n ?r')) mod 256"
    by simp
  from read_response_fails_iff [OF b1 b2 b3 b4] b5 have bad: "\<not> fst (read_response ?s')"
    by blast
  from 1 2 good buf bad show ?thesis
    by blast
qed

text \<open>
  Byte 6 of a response counts in the sum: \<^verbatim>\<open>4D 50 00 00 00 00 01 9D\<close>, whose last byte
  is the sum of bytes 0 to 5 only, is refused, and \<^verbatim>\<open>4D 50 00 00 00 00 01 9E\<close> is accepted.
\<close>

lemma read_response_byte_6_counts:
  "\<not> fst (read_response (example_driver False [] [(TTY_OK, [0x4D, 0x50, 0, 0, 0, 0, 1, 0x9D])]))
   \<and> fst (read_response (example_driver False [] [(TTY_OK, [0x4D, 0x50, 0, 0, 0, 0, 1, 0x9E])]))"
  by (simp add: read_response_def tty_read_def tty_next_read_def example_driver_def
        store_bytes_def calculate_checksum_def Let_def)

section \<open>Signed readings\<close>

lemma mod_wrap_int:
  fixes x m :: int
  assumes "0 \<le> x" and "x < 2 * m"
  shows "x mod m = (if x < m then x else x - m)"
proof (cases "x < m")
  case True
  with assms show ?thesis by simp
next
  case False
  have "(x - m) mod m = x mod m"
    by (rule minus_mod_self2)
  moreover have "(x - m) mod m = x - m"
    using False assms by (intro mod_pos_pos_trivial) simp_all
  ultimately show ?thesis
    using False by simp
qed

lemma sint_32_cases:
  "sint (t :: 32 word) = (if uint t < 2 ^ 31 then uint t else uint t - 2 ^ 32)"
proof -
  have b: "0 \<le> uint t" "uint t < 2 ^ 32"
    using uint_lt2p [of t] by simp_all
  have "sint t = (uint t + 2 ^ 31) mod 2 ^ 32 - 2 ^ 31"
    by (simp add: sint_uint signed_take_bit_eq_take_bit_shift take_bit_eq_mod)
  also have "\<dots> = (if uint t < 2 ^ 31 then uint t else uint t - 2 ^ 32)"
    using b by (simp add: mod_wrap_int)
  finally show ?thesis .
qed

lemma sint_16_cases:
  "sint (t :: 16 word) = (if uint t < 2 ^ 15 then uint t else uint t - 2 ^ 16)"
proof -
  have b: "0 \<le> uint t" "uint t < 2 ^ 16"
    using uint_lt2p [of t] by simp_all
  have "sint t = (uint t + 2 ^ 15) mod 2 ^ 16 - 2 ^ 15"
    by (simp add: sint_uint signed_take_bit_eq_take_bit_shift take_bit_eq_mod)
  also have "\<dots> = (if uint t < 2 ^ 15 then uint t else uint t - 2 ^ 16)"
    using b by (simp add: mod_wrap_int)
  finally show ?thesis .
qed

lemma short_int_word_cat: "short_int hi lo = sint (word_cat hi lo :: 16 word)"
proof -
  have "(ucast (push_bit 8 (ucast hi) OR ucast lo :: 32 word) :: 16 word) = push_bit 8 (ucast hi) OR ucast lo"
    by (rule bit_word_eqI) (auto simp add: bit_simps)
  then show ?thesis
    by (simp add: short_int_def word_cat_eq_push_bit_or)
qed

lemma uint_word_cat_16: "uint (word_cat (hi::byte) (lo::byte) :: 16 word) = 256 * uint hi + uint lo"
proof -
  have "0 \<le> uint hi" "uint hi < 256" "0 \<le> uint lo" "uint lo < 256"
    using uint_lt2p [of hi] uint_lt2p [of lo] by simp_all
  moreover have "uint (ucast hi :: 16 word) = uint hi" "uint (ucast lo :: 16 word) = uint lo"
    by (simp_all add: uint_up_ucast is_up)
  ultimately show ?thesis
    by (simp add: word_cat_eq uint_word_ariths push_bit_eq_mult)
qed

lemma short_int_value:
  "short_int hi lo = (if 256 * uint hi + uint lo < 32768 then 256 * uint hi + uint lo else 256 * uint hi + uint lo - 65536)"
  by (simp add: short_int_word_cat sint_16_cases uint_word_cat_16)

section \<open>Moves\<close>

lemma read_response_written: "tty_written (snd (read_response s)) = tty_written s"
  by (simp add: read_response_state tty_read_def Let_def split: prod.splits)

lemma dispatch_command_written:
  assumes "\<not> isSimulation s" and "send_command_frame k l = Some c"
  shows "tty_written (snd (dispatch_command k l s)) = tty_written s @ [c]"
proof -
  obtain r1 s1 where 1: "send_command k l s = (r1, s1)"
    by fastforce
  obtain r2 s2 where 2: "read_response s1 = (r2, s2)"
    by fastforce
  from 1 send_command_written [OF assms] have a: "tty_written s1 = tty_written s @ [c]"
    by simp
  from 2 read_response_written [of s1] have b: "tty_written s2 = tty_written s1"
    by simp
  show ?thesis
    using 1 2 a b by (cases r1; cases r2) (simp_all add: dispatch_command_def)
qed

lemma setPosition_state:
  "snd (setPosition t s) = snd (dispatch_command (of_char (CHR ''M'')) t s)"
  by (simp add: setPosition_def split: prod.splits bool.splits)

lemma setPosition_written:
  assumes "\<not> isSimulation s"
  shows "\<exists>c. tty_written (snd (setPosition t s)) = tty_written s @ [c]
           \<and> cmd_k c = of_char (CHR ''M'') \<and> payload32 c = t"
proof -
  from send_command_frame_payload [of "of_char (CHR ''M'')" t]
  obtain c where c: "send_command_frame (of_char (CHR ''M'')) t = Some c"
    and k: "cmd_k c = of_char (CHR ''M'')" and p: "payload32 c = t"
    by auto
  from dispatch_command_written [OF assms c] k p show ?thesis
    by (simp add: setPosition_state)
qed

lemma setPosition_position: "currentPosition (snd (setPosition t s)) = currentPosition s"
  by (simp only: setPosition_state same_driver_fields(1) [OF same_driver_dispatch_command])

lemma snd_case_result:
  "snd (case r of (True, s1) \<Rightarrow> (a, f s1) | (False, s1) \<Rightarrow> (b, s1))
     = (if fst r then f (snd r) else snd r)"
  by (cases r) (simp split: bool.splits)

text \<open>
  Claim C5. For either direction and every tick count \<open>n\<close>, \<^verbatim>\<open>MoveRelFocuser\<close> is
  \<^verbatim>\<open>setPosition\<close> at the cached position minus \<open>n\<close> (inward) or plus \<open>n\<close> (outward), in
  32-bit arithmetic; the cached position is the same after the call as before; and
  outside simulation exactly one frame goes to the line, an M frame whose payload is
  that target.
\<close>

theorem MoveRelFocuser_issues_one_M:
  assumes "target = currentPosition s + (if dir = FOCUS_INWARD then - n else n)"
  shows "MoveRelFocuser dir n s
           = (case setPosition target s of
                (True, s1) \<Rightarrow> (IPS_OK, s1\<lparr>FocusRelPosNP_s := IPS_OK\<rparr>)
              | (False, s1) \<Rightarrow> (IPS_ALERT, s1))
         \<and> currentPosition (snd (MoveRelFocuser dir n s)) = currentPosition s
         \<and> (\<not> isSimulation s \<longrightarrow>
              (\<exists>c. tty_written (snd (MoveRelFocuser dir n s)) = tty_written s @ [c]
                  \<and> cmd_k c = of_char (CHR ''M'') \<and> payload32 c = target))"
proof -
  have t: "currentPosition s + n * (if dir = FOCUS_INWARD then - 1 else 1) = target"
    using assms by simp
  have d: "MoveRelFocuser dir n s
           = (case setPosition target s of
                (True, s1) \<Rightarrow> (IPS_OK, s1\<lparr>FocusRelPosNP_s := IPS_OK\<rparr>)
              | (False, s1) \<Rightarrow> (IPS_ALERT, s1))"
    unfolding MoveRelFocuser_def Let_def t ..
  have p: "currentPosition (snd (MoveRelFocuser dir n s)) = currentPosition s"
    unfolding d snd_case_result by (simp add: setPosition_position)
  have w: "tty_written (snd (MoveRelFocuser dir n s)) = tty_written (snd (setPosition target s))"
    unfolding d snd_case_result by simp
  from d p w setPosition_written [of s target] show ?thesis
    by simp
qed

text \<open>From position 0, 160 ticks inward: the target is -160, \<^verbatim>\<open>FF FF FF 60\<close> on the wire.\<close>

theorem MoveRelFocuser_issues_one_M_witness:
  "(- 160 :: 32 word)
     = currentPosition (example_driver False [TTY_OK] [])
       + (if FOCUS_INWARD = FOCUS_INWARD then - 160 else 160)
   \<and> \<not> isSimulation (example_driver False [TTY_OK] [])
   \<and> (\<exists>c. tty_written (snd (MoveRelFocuser FOCUS_INWARD 160 (example_driver False [TTY_OK] [])))
            = [c]
          \<and> cmd_k c = of_char (CHR ''M'') \<and> payload32 c = - 160)"
proof -
  let ?s = "example_driver False [TTY_OK] []"
  have 1: "(- 160 :: 32 word)
     = currentPosition ?s + (if FOCUS_INWARD = FOCUS_INWARD then - 160 else 160)"
    by (simp add: example_driver_def)
  have 2: "\<not> isSimulation ?s"
    by (simp add: example_driver_def)
  have 3: "tty_written ?s = []"
    by (simp add: example_driver_def)
  from MoveRelFocuser_issues_one_M [OF 1] 2
  have "\<exists>c. tty_written (snd (MoveRelFocuser FOCUS_INWARD 160 ?s)) = tty_written ?s @ [c]
          \<and> cmd_k c = of_char (CHR ''M'') \<and> payload32 c = - 160"
    by blast
  with 1 2 3 show ?thesis
    by simp
qed

text \<open>
  As long as the tick count is below \<open>2^31\<close> and the sum stays in the range of
  \<^verbatim>\<open>int32_t\<close>, the 32-bit target is the integer sum: the signed cached position minus or
  plus the count.
\<close>

lemma MoveRelFocuser_target_in_range:
  fixes position n :: "32 word"
  assumes "uint n < 2 ^ 31"
    and "d = (if dir = FOCUS_INWARD then - uint n else uint n)"
    and "- (2 ^ 31) \<le> sint position + d" and "sint position + d < 2 ^ 31"
  shows "sint (position + (if dir = FOCUS_INWARD then - n else n)) = sint position + d"
proof -
  have n: "sint n = uint n"
    using assms(1) by (simp add: sint_32_cases)
  show ?thesis
  proof (cases "dir = FOCUS_INWARD")
    case True
    have "sint (position - n) = signed_take_bit 31 (sint position - sint n)"
      by (simp add: sint_word_ariths)
    also have "\<dots> = sint position - sint n"
      using assms(2-4) True n by (intro signed_take_bit_int_eq_self) simp_all
    finally show ?thesis
      using True assms(2) n by simp
  next
    case False
    have "sint (position + n) = signed_take_bit 31 (sint position + sint n)"
      by (simp add: sint_word_ariths)
    also have "\<dots> = sint position + sint n"
      using assms(2-4) False n by (intro signed_take_bit_int_eq_self) simp_all
    finally show ?thesis
      using False assms(2) n by simp
  qed
qed

lemma MoveAbsFocuser_written:
  "tty_written (snd (MoveAbsFocuser t s)) = tty_written (snd (setPosition t s))"
  unfolding MoveAbsFocuser_def snd_case_result by simp

text \<open>
  Claim C7, as the code has it. \<^verbatim>\<open>MoveAbsFocuser\<close> does not compare its target with the
  configured maximum: in every driver state, so for every maximum, and for every target
  \<open>t\<close>, outside simulation it hands exactly one frame to the line, an M frame whose
  payload is \<open>t\<close>.
\<close>

theorem MoveAbsFocuser_dispatches_every_target:
  assumes "\<not> isSimulation s"
  shows "\<exists>c. tty_written (snd (MoveAbsFocuser t s)) = tty_written s @ [c]
           \<and> cmd_k c = of_char (CHR ''M'') \<and> payload32 c = t"
  using setPosition_written [OF assms] by (simp only: MoveAbsFocuser_written)

theorem MoveAbsFocuser_dispatches_every_target_witness:
  "\<not> isSimulation (example_driver False [TTY_OK] [])
   \<and> (\<exists>c. tty_written (snd (MoveAbsFocuser 1000 (example_driver False [TTY_OK] []))) = [c]
          \<and> cmd_k c = of_char (CHR ''M'') \<and> payload32 c = 1000)"
proof -
  let ?s = "example_driver False [TTY_OK] []"
  have 1: "\<not> isSimulation ?s"
    by (simp add: example_driver_def)
  have 2: "tty_written ?s = []"
    by (simp add: example_driver_def)
  from MoveAbsFocuser_dispatches_every_target [OF 1, of 1000] 1 2 show ?thesis
    by simp
qed

text \<open>
  The claim as the specification states it fails: with the maximum at 300000, the target
  400000 goes out as \<^verbatim>\<open>4D 4D 00 06 1A 80 00 3A\<close>, and when the device echoes the frame
  the move is reported as accepted.
\<close>

theorem MoveAbsFocuser_out_of_bounds_counterexample:
  "MaxPositionN_value
     (example_driver False [TTY_OK] [(TTY_OK, [0x4D, 0x4D, 0, 6, 0x1A, 0x80, 0, 0x3A])])
     < real_of_int \<bar>sint (400000 :: 32 word)\<bar>
   \<and> MoveAbsFocuser 400000
        (example_driver False [TTY_OK] [(TTY_OK, [0x4D, 0x4D, 0, 6, 0x1A, 0x80, 0, 0x3A])])
       = (IPS_OK,
          (example_driver False [] [])
            \<lparr>currentResponse := \<lparr>cmd_M = 0x4D, cmd_k = 0x4D, cmd_a = 0, cmd_b = 6,
                                  cmd_c = 0x1A, cmd_d = 0x80, cmd_n = 0, cmd_z = 0x3A\<rparr>,
             FocusAbsPosNP_s := IPS_OK,
             tty_written := [\<lparr>cmd_M = 0x4D, cmd_k = 0x4D, cmd_a = 0, cmd_b = 6, cmd_c = 0x1A,
                               cmd_d = 0x80, cmd_n = 0, cmd_z = 0x3A\<rparr>]\<rparr>)"
  by (simp add: example_driver_def MoveAbsFocuser_def setPosition_def dispatch_command_def
        send_command_def send_command_frame_def tty_write_def read_response_def tty_read_def
        tty_next_read_def store_bytes_def calculate_checksum_def x_byte_def payload32_def
        Let_def)

text \<open>
  Claim C10. \<^verbatim>\<open>MoveAbsFocuser\<close> takes an unsigned 32-bit count \<open>t\<close> and calls
  \<^verbatim>\<open>setPosition\<close> with the same 32 bits read as a signed number: the commanded target is
  \<open>t\<close> itself when \<open>t < 2^31\<close> and \<open>t - 2^32\<close> otherwise. No \<open>t\<close> is turned away: for every
  \<open>t\<close>, outside simulation, one M frame with these 32 bits as payload goes to the line.
\<close>

theorem MoveAbsFocuser_reinterprets_target:
  "\<exists>position.
      sint position = (if uint t < 2 ^ 31 then uint t else uint t - 2 ^ 32)
      \<and> MoveAbsFocuser t s
          = (case setPosition position s of
               (True, s1) \<Rightarrow> (IPS_OK, s1\<lparr>FocusAbsPosNP_s := IPS_OK\<rparr>)
             | (False, s1) \<Rightarrow> (IPS_ALERT, s1))
      \<and> (\<not> isSimulation s \<longrightarrow>
           (\<exists>c. tty_written (snd (MoveAbsFocuser t s)) = tty_written s @ [c]
               \<and> cmd_k c = of_char (CHR ''M'') \<and> payload32 c = position))"
proof -
  have "sint t = (if uint t < 2 ^ 31 then uint t else uint t - 2 ^ 32)"
    by (rule sint_32_cases)
  moreover have "MoveAbsFocuser t s
          = (case setPosition t s of
               (True, s1) \<Rightarrow> (IPS_OK, s1\<lparr>FocusAbsPosNP_s := IPS_OK\<rparr>)
             | (False, s1) \<Rightarrow> (IPS_ALERT, s1))"
    by (simp add: MoveAbsFocuser_def)
  moreover have "\<not> isSimulation s \<longrightarrow>
           (\<exists>c. tty_written (snd (MoveAbsFocuser t s)) = tty_written s @ [c]
               \<and> cmd_k c = of_char (CHR ''M'') \<and> payload32 c = t)"
    using setPosition_written [of s t] by (simp only: MoveAbsFocuser_written) blast
  ultimately show ?thesis
    by blast
qed

text \<open>The unsigned count \<open>2^32 - 32\<close> is commanded as -32.\<close>

theorem MoveAbsFocuser_reinterprets_target_witness:
  "\<not> isSimulation (example_driver False [TTY_OK] [])
   \<and> \<not> uint (4294967264 :: 32 word) < 2 ^ 31
   \<and> (\<exists>c. tty_written (snd (MoveAbsFocuser 4294967264 (example_driver False [TTY_OK] [])))
            = [c]
          \<and> cmd_k c = of_char (CHR ''M'') \<and> sint (payload32 c) = - 32)"
proof -
  let ?s = "example_driver False [TTY_OK] []"
  have 1: "\<not> isSimulation ?s"
    by (simp add: example_driver_def)
  have 2: "tty_written ?s = []"
    by (simp add: example_driver_def)
  have 3: "\<not> uint (4294967264 :: 32 word) < 2 ^ 31"
    by simp
  from MoveAbsFocuser_reinterprets_target [of 4294967264 ?s] 1
  obtain position c where "sint position = uint (4294967264 :: 32 word) - 2 ^ 32"
    and "tty_written (snd (MoveAbsFocuser 4294967264 ?s)) = tty_written ?s @ [c]"
    and "cmd_k c = of_char (CHR ''M'')" and "payload32 c = position"
    using 3 by auto
  with 1 2 3 show ?thesis
    by auto
qed

section \<open>The environment reading\<close>

lemma getTemperature_real:
  assumes "\<not> isSimulation s"
  shows "getTemperature s
           = (case dispatch_command (of_char (CHR ''T'')) 0 s of
                (True, s1) \<Rightarrow>
                  (True,
                   s1\<lparr>currentTemperature :=
                         real_of_int (short_int (cmd_c (currentResponse s1))
                                        (cmd_d (currentResponse s1))) / 10 + 273.15,
                       currentHumidity :=
                         real_of_int (short_int (cmd_a (currentResponse s1))
                                        (cmd_b (currentResponse s1))) / 10\<rparr>)
              | (False, s1) \<Rightarrow> (False, s1))"
  using assms by (simp add: getTemperature_def)

lemma dispatch_command_echo:
  "fst (dispatch_command k l s) \<Longrightarrow> cmd_k (currentResponse (snd (dispatch_command k l s))) = k"
  by (auto simp add: dispatch_command_def split: prod.splits bool.splits)

text \<open>
  Claim C6, as the code has it. After a successful T exchange both readings are decoded
  as signed 16-bit numbers: with \<open>H = 256 a + b\<close> and \<open>T = 256 c + d\<close> taken from the
  response, the cached humidity is \<open>H / 10\<close> when \<open>H < 32768\<close> and \<open>(H - 65536) / 10\<close>
  otherwise, and the cached temperature is the same reading of \<open>T\<close>, divided by 10, plus
  273.15.
\<close>

theorem getTemperature_decodes_signed:
  assumes "\<not> isSimulation s"
    and "getTemperature s = (True, s')"
    and "r = currentResponse s'"
    and "H = 256 * uint (cmd_a r) + uint (cmd_b r)"
    and "T = 256 * uint (cmd_c r) + uint (cmd_d r)"
  shows "cmd_k r = of_char (CHR ''T'')
         \<and> currentHumidity s' = real_of_int (if H < 32768 then H else H - 65536) / 10
         \<and> currentTemperature s'
             = real_of_int (if T < 32768 then T else T - 65536) / 10 + 273.15"
proof -
  obtain ok s1 where d: "dispatch_command (of_char (CHR ''T'')) 0 s = (ok, s1)"
    by fastforce
  with assms(1,2) have ok: "ok"
    and s': "s' = s1\<lparr>currentTemperature :=
                         real_of_int (short_int (cmd_c (currentResponse s1))
                                        (cmd_d (currentResponse s1))) / 10 + 273.15,
                       currentHumidity :=
                         real_of_int (short_int (cmd_a (currentResponse s1))
                                        (cmd_b (currentResponse s1))) / 10\<rparr>"
    by (auto simp add: getTemperature_real split: bool.splits)
  have r: "r = currentResponse s1"
    using assms(3) by (simp add: s')
  have "cmd_k r = of_char (CHR ''T'')"
    using dispatch_command_echo [of "of_char (CHR ''T'')" 0 s] d ok r by simp
  moreover have "currentHumidity s' = real_of_int (if H < 32768 then H else H - 65536) / 10"
    unfolding assms(4) r by (simp add: s' short_int_value)
  moreover have "currentTemperature s'
             = real_of_int (if T < 32768 then T else T - 65536) / 10 + 273.15"
    unfolding assms(5) r by (simp add: s' short_int_value)
  ultimately show ?thesis
    by blast
qed

lemmas exchange_defs =
  dispatch_command_def send_command_def send_command_frame_def tty_write_def
  read_response_def tty_read_def tty_next_read_def store_bytes_def calculate_checksum_def
  x_byte_def payload32_def Let_def

text \<open>
  The response \<^verbatim>\<open>4D 54 03 52 FF EC 00 E1\<close>: raw humidity \<open>0x0352\<close>, 85.0 per cent, raw
  temperature \<open>0xFFEC\<close>, -2.0 degrees Celsius, 271.15 kelvin.
\<close>

theorem getTemperature_decodes_signed_witness:
  "\<not> isSimulation
       (example_driver False [TTY_OK] [(TTY_OK, [0x4D, 0x54, 3, 0x52, 0xFF, 0xEC, 0, 0xE1])])
   \<and> fst (getTemperature
            (example_driver False [TTY_OK] [(TTY_OK, [0x4D, 0x54, 3, 0x52, 0xFF, 0xEC, 0, 0xE1])]))
   \<and> currentHumidity
        (snd (getTemperature
               (example_driver False [TTY_OK]
                  [(TTY_OK, [0x4D, 0x54, 3, 0x52, 0xFF, 0xEC, 0, 0xE1])]))) = 85
   \<and> currentTemperature
        (snd (getTemperature
               (example_driver False [TTY_OK]
                  [(TTY_OK, [0x4D, 0x54, 3, 0x52, 0xFF, 0xEC, 0, 0xE1])]))) = 271.15"
proof -
  let ?s = "example_driver False [TTY_OK] [(TTY_OK, [0x4D, 0x54, 3, 0x52, 0xFF, 0xEC, 0, 0xE1])]"
  let ?r = "\<lparr>cmd_M = 0x4D, cmd_k = 0x54, cmd_a = 3, cmd_b = 0x52, cmd_c = 0xFF, cmd_d = 0xEC,
             cmd_n = 0, cmd_z = 0xE1\<rparr>"
  have f: "fst (getTemperature ?s)"
    by (simp add: example_driver_def getTemperature_def exchange_defs)
  then have g: "getTemperature ?s = (True, snd (getTemperature ?s))"
    by (cases "getTemperature ?s") simp
  have r: "?r = currentResponse (snd (getTemperature ?s))"
    by (simp add: example_driver_def getTemperature_def exchange_defs)
  have 1: "\<not> isSimulation ?s"
    by (simp add: example_driver_def)
  have "currentHumidity (snd (getTemperature ?s)) = 85
          \<and> currentTemperature (snd (getTemperature ?s)) = 271.15"
    using getTemperature_decodes_signed [OF 1 g r refl refl] by simp
  with 1 f show ?thesis
    by blast
qed

text \<open>
  The claim as the specification states it fails for the humidity: the response
  \<^verbatim>\<open>4D 54 FF FF 00 00 00 9F\<close> carries the raw humidity \<open>0xFFFF\<close>, which the driver reads as
  -1 and caches as -0.1, where the unsigned reading is 65535, that is 6553.5.
\<close>

theorem getTemperature_humidity_counterexample:
  "fst (getTemperature
         (example_driver False [TTY_OK] [(TTY_OK, [0x4D, 0x54, 0xFF, 0xFF, 0, 0, 0, 0x9F])]))
   \<and> cmd_a (currentResponse (snd (getTemperature
         (example_driver False [TTY_OK] [(TTY_OK, [0x4D, 0x54, 0xFF, 0xFF, 0, 0, 0, 0x9F])]))))
       = 0xFF
   \<and> cmd_b (currentResponse (snd (getTemperature
         (example_driver False [TTY_OK] [(TTY_OK, [0x4D, 0x54, 0xFF, 0xFF, 0, 0, 0, 0x9F])]))))
       = 0xFF
   \<and> currentHumidity (snd (getTemperature
         (example_driver False [TTY_OK] [(TTY_OK, [0x4D, 0x54, 0xFF, 0xFF, 0, 0, 0, 0x9F])])))
       = - 1 / 10
   \<and> currentHumidity (snd (getTemperature
         (example_driver False [TTY_OK] [(TTY_OK, [0x4D, 0x54, 0xFF, 0xFF, 0, 0, 0, 0x9F])])))
       \<noteq> real_of_int (uint (push_bit 8 0xFF OR 0xFF :: 16 word)) / 10"
  by (simp add: example_driver_def getTemperature_def exchange_defs short_int_def)

section \<open>Failed reads and the cache\<close>

lemma dispatch_command_cached: "cached (snd (dispatch_command k l s)) = cached s"
  by (rule same_driver_cached) (rule same_driver_dispatch_command)

lemma getPosition_failed:
  assumes "\<not> fst (getPosition s)"
  shows "snd (getPosition s) = snd (dispatch_command (of_char (CHR ''P'')) 0 s)"
  using assms by (auto simp add: getPosition_def split: if_splits prod.splits bool.splits)

lemma getTemperature_failed:
  assumes "\<not> fst (getTemperature s)"
  shows "snd (getTemperature s) = snd (dispatch_command (of_char (CHR ''T'')) 0 s)"
  using assms by (auto simp add: getTemperature_def split: if_splits prod.splits bool.splits)

lemma getStatus_failed:
  assumes "\<not> fst (getStatus s)"
  shows "snd (getStatus s)
           = (let i = dispatch_command (of_char (CHR ''I'')) 0 s
              in if fst i then
                   snd (dispatch_command (of_char (CHR ''W'')) 0
                          ((snd i)\<lparr>isMoving := (cmd_d (currentResponse (snd i)) = 1)\<rparr>))
                 else snd i)"
  using assms
  by (auto simp add: getStatus_def Let_def split: if_splits prod.splits bool.splits)

text \<open>
  Claim C8, as the code has it. A failed \<^verbatim>\<open>getPosition\<close> and a failed \<^verbatim>\<open>getTemperature\<close>
  leave the five cached readings as they were. A failed \<^verbatim>\<open>getStatus\<close> leaves the
  position, the absolute flag, the temperature and the humidity as they were; the moving
  flag is as it was when the I exchange failed, and is the flag of the I response when
  that exchange succeeded and the W exchange failed.
\<close>

theorem failed_read_cache:
  "(\<not> fst (getPosition s) \<longrightarrow> cached (snd (getPosition s)) = cached s)
   \<and> (\<not> fst (getTemperature s) \<longrightarrow> cached (snd (getTemperature s)) = cached s)
   \<and> (\<not> fst (getStatus s) \<longrightarrow>
        currentPosition (snd (getStatus s)) = currentPosition s
        \<and> isAbsolute (snd (getStatus s)) = isAbsolute s
        \<and> currentTemperature (snd (getStatus s)) = currentTemperature s
        \<and> currentHumidity (snd (getStatus s)) = currentHumidity s
        \<and> isMoving (snd (getStatus s))
            = (if fst (dispatch_command (of_char (CHR ''I'')) 0 s)
               then cmd_d (currentResponse (snd (dispatch_command (of_char (CHR ''I'')) 0 s))) = 1
               else isMoving s))"
proof -
  have p: "\<not> fst (getPosition s) \<longrightarrow> cached (snd (getPosition s)) = cached s"
    by (simp add: getPosition_failed dispatch_command_cached)
  have t: "\<not> fst (getTemperature s) \<longrightarrow> cached (snd (getTemperature s)) = cached s"
    by (simp add: getTemperature_failed dispatch_command_cached)
  have g: "currentPosition (snd (getStatus s)) = currentPosition s
        \<and> isAbsolute (snd (getStatus s)) = isAbsolute s
        \<and> currentTemperature (snd (getStatus s)) = currentTemperature s
        \<and> currentHumidity (snd (getStatus s)) = currentHumidity s
        \<and> isMoving (snd (getStatus s))
            = (if fst (dispatch_command (of_char (CHR ''I'')) 0 s)
               then cmd_d (currentResponse (snd (dispatch_command (of_char (CHR ''I'')) 0 s))) = 1
               else isMoving s)"
    if f: "\<not> fst (getStatus s)"
  proof (cases "fst (dispatch_command (of_char (CHR ''I'')) 0 s)")
    case False
    with getStatus_failed [OF f]
    have "snd (getStatus s) = snd (dispatch_command (of_char (CHR ''I'')) 0 s)"
      by (simp add: Let_def)
    with False same_driver_fields [OF same_driver_dispatch_command [of s "of_char (CHR ''I'')" 0]]
    show ?thesis
      by simp
  next
    case True
    define s1 where "s1 = snd (dispatch_command (of_char (CHR ''I'')) 0 s)"
    define s2 where "s2 = s1\<lparr>isMoving := (cmd_d (currentResponse s1) = 1)\<rparr>"
    from True getStatus_failed [OF f]
    have e: "snd (getStatus s) = snd (dispatch_command (of_char (CHR ''W'')) 0 s2)"
      by (simp add: Let_def s1_def s2_def)
    note a = same_driver_fields [OF same_driver_dispatch_command [of s "of_char (CHR ''I'')" 0],
               folded s1_def]
    note b = same_driver_fields [OF same_driver_dispatch_command [of s2 "of_char (CHR ''W'')" 0],
               folded e]
    have "currentPosition s2 = currentPosition s" "isAbsolute s2 = isAbsolute s"
      "currentTemperature s2 = currentTemperature s" "currentHumidity s2 = currentHumidity s"
      "isMoving s2 = (cmd_d (currentResponse s1) = 1)"
      using a by (simp_all add: s2_def)
    with b True show ?thesis
      by (simp add: s1_def)
  qed
  from p t g show ?thesis
    by blast
qed

text \<open>On a dead line every read fails, and the status read fails at its first exchange.\<close>

theorem failed_read_cache_witness:
  "\<not> fst (getPosition (example_driver False [] []))
   \<and> \<not> fst (getTemperature (example_driver False [] []))
   \<and> \<not> fst (getStatus (example_driver False [] []))
   \<and> cached (snd (getPosition (example_driver False [] []))) = (0, False, False, 0, 0)
   \<and> cached (snd (getTemperature (example_driver False [] []))) = (0, False, False, 0, 0)
   \<and> isMoving (snd (getStatus (example_driver False [] []))) = False"
proof -
  let ?s = "example_driver False [] []"
  have 1: "\<not> fst (getPosition ?s)"
    by (simp add: example_driver_def getPosition_def exchange_defs)
  have 2: "\<not> fst (getTemperature ?s)"
    by (simp add: example_driver_def getTemperature_def exchange_defs)
  have 3: "\<not> fst (getStatus ?s)"
    by (simp add: example_driver_def getStatus_def exchange_defs)
  have 4: "\<not> fst (dispatch_command (of_char (CHR ''I'')) 0 ?s)"
    by (simp add: example_driver_def exchange_defs)
  have 5: "cached ?s = (0, False, False, 0, 0)" "isMoving ?s = False"
    by (simp_all add: example_driver_def cached_def)
  from failed_read_cache [of ?s] 1 2 3 4 5 show ?thesis
    by simp
qed

text \<open>
  The claim as the specification states it fails for the status read: the device answers
  the I request with \<^verbatim>\<open>4D 49 00 00 00 01 00 97\<close> (moving) and then falls silent, so the W
  exchange times out. \<^verbatim>\<open>getStatus\<close> returns \<^verbatim>\<open>false\<close>, and the moving flag, unset
  before the call, is set after it.
\<close>

theorem getStatus_partial_update_counterexample:
  "\<not> fst (getStatus
           (example_driver False [TTY_OK, TTY_OK] [(TTY_OK, [0x4D, 0x49, 0, 0, 0, 1, 0, 0x97])]))
   \<and> isMoving (example_driver False [TTY_OK, TTY_OK]
                 [(TTY_OK, [0x4D, 0x49, 0, 0, 0, 1, 0, 0x97])]) = False
   \<and> isMoving (snd (getStatus
           (example_driver False [TTY_OK, TTY_OK]
              [(TTY_OK, [0x4D, 0x49, 0, 0, 0, 1, 0, 0x97])]))) = True
   \<and> cached (snd (getStatus
           (example_driver False [TTY_OK, TTY_OK]
              [(TTY_OK, [0x4D, 0x49, 0, 0, 0, 1, 0, 0x97])])))
       \<noteq> cached (example_driver False [TTY_OK, TTY_OK]
                   [(TTY_OK, [0x4D, 0x49, 0, 0, 0, 1, 0, 0x97])])"
  by (simp add: example_driver_def getStatus_def exchange_defs cached_def)

section \<open>Simulation\<close>

lemma dispatch_command_simulation:
  assumes "isSimulation s" and "send_command_frame k l = Some c"
  shows "dispatch_command k l s
           = (True, s\<lparr>currentResponse :=
                        (currentResponse s)\<lparr>cmd_k := k, cmd_n := 0, cmd_z := cmd_z c\<rparr>\<rparr>)"
  using assms by (simp add: dispatch_command_def send_command_def read_response_def)

text \<open>Under simulation a sync succeeds exactly when the payload bytes left in the response
  buffer happen to be the requested position: the simulated exchange echoes no payload.\<close>

lemma setSync_simulation:
  assumes "isSimulation s"
  shows "fst (setSync x s) = (payload32 (currentResponse s) = x)"
    and "\<exists>z. snd (setSync x s)
               = s\<lparr>currentResponse :=
                     (currentResponse s)\<lparr>cmd_k := of_char (CHR ''Z''), cmd_n := 0, cmd_z := z\<rparr>\<rparr>"
proof -
  from send_command_frame_payload [of "of_char (CHR ''Z'')" x]
  obtain c where c: "send_command_frame (of_char (CHR ''Z'')) x = Some c"
    by auto
  show "fst (setSync x s) = (payload32 (currentResponse s) = x)"
    unfolding setSync_def dispatch_command_simulation [OF assms c]
    by (simp add: payload32_def)
  show "\<exists>z. snd (setSync x s)
               = s\<lparr>currentResponse :=
                     (currentResponse s)\<lparr>cmd_k := of_char (CHR ''Z''), cmd_n := 0, cmd_z := z\<rparr>\<rparr>"
    unfolding setSync_def dispatch_command_simulation [OF assms c]
    by (intro exI [of _ "cmd_z c"]) simp
qed

text \<open>
  Claim C9, as the code has it. Under simulation, for every position \<open>x\<close>, a sync to \<open>x\<close>
  followed by \<^verbatim>\<open>getPosition\<close> leaves the cached position equal to the simulated position,
  whatever \<open>x\<close> is, and the position read succeeds; nothing goes to the line.
\<close>

theorem simulated_sync_then_getPosition:
  assumes "isSimulation s"
  shows "fst (getPosition (snd (setSync x s)))
         \<and> currentPosition (snd (getPosition (snd (setSync x s)))) = simulatedPosition s
         \<and> tty_written (snd (getPosition (snd (setSync x s)))) = tty_written s"
proof -
  from setSync_simulation(2) [OF assms, of x]
  obtain z where "snd (setSync x s)
               = s\<lparr>currentResponse :=
                     (currentResponse s)\<lparr>cmd_k := of_char (CHR ''Z''), cmd_n := 0, cmd_z := z\<rparr>\<rparr>"
    by blast
  then show ?thesis
    by (simp add: getPosition_def assms)
qed

theorem simulated_sync_then_getPosition_witness:
  "isSimulation (example_driver True [] [])
   \<and> fst (getPosition (snd (setSync 2000 (example_driver True [] []))))
   \<and> currentPosition (snd (getPosition (snd (setSync 2000 (example_driver True [] [])))))
       = 2000"
proof -
  have 1: "isSimulation (example_driver True [] [])"
    by (simp add: example_driver_def)
  have 2: "simulatedPosition (example_driver True [] []) = 2000"
    by (simp add: example_driver_def)
  from simulated_sync_then_getPosition [OF 1, of 2000] 1 2 show ?thesis
    by simp
qed

text \<open>
  The claim as the specification states it fails: a simulated driver fresh from
  \<^verbatim>\<open>initProperties\<close> refuses the sync to 5, and the position read that follows caches the
  simulated position 2000.
\<close>

theorem simulated_sync_counterexample:
  "isSimulation (example_driver True [] [])
   \<and> \<not> fst (setSync 5 (example_driver True [] []))
   \<and> fst (getPosition (snd (setSync 5 (example_driver True [] []))))
   \<and> currentPosition (snd (getPosition (snd (setSync 5 (example_driver True [] []))))) = 2000
   \<and> currentPosition (snd (getPosition (snd (setSync 5 (example_driver True [] []))))) \<noteq> 5"
  by (simp add: example_driver_def setSync_def getPosition_def exchange_defs)

section \<open>Properties of the polling tick\<close>

lemma getStatus_fields:
  shows "currentPosition (snd (getStatus s)) = currentPosition s"
    and "FocusAbsPosNP_s (snd (getStatus s)) = FocusAbsPosNP_s s"
    and "isSimulation (snd (getStatus s)) = isSimulation s"
proof -
  define s1 where "s1 = snd (dispatch_command (of_char (CHR ''I'')) 0 s)"
  define s2 where "s2 = s1\<lparr>isMoving := (cmd_d (currentResponse s1) = 1)\<rparr>"
  define s3 where "s3 = snd (dispatch_command (of_char (CHR ''W'')) 0 s2)"
  note a = same_driver_fields [OF same_driver_dispatch_command [of s "of_char (CHR ''I'')" 0],
             folded s1_def]
  note b = same_driver_fields [OF same_driver_dispatch_command [of s2 "of_char (CHR ''W'')" 0],
             folded s3_def]
  have 2: "currentPosition s2 = currentPosition s" "FocusAbsPosNP_s s2 = FocusAbsPosNP_s s"
    "isSimulation s2 = isSimulation s"
    using a by (simp_all add: s2_def)
  have e: "snd (getStatus s)
             = (if isSimulation s then s
                else if \<not> fst (dispatch_command (of_char (CHR ''I'')) 0 s) then s1
                else if \<not> fst (dispatch_command (of_char (CHR ''W'')) 0 s2) then s3
                else s3\<lparr>isAbsolute := (cmd_d (currentResponse s3) = 1)\<rparr>)"
    by (simp add: getStatus_def Let_def s1_def s2_def s3_def split: prod.splits bool.splits)
  show "currentPosition (snd (getStatus s)) = currentPosition s"
    unfolding e using a b 2 by simp
  show "FocusAbsPosNP_s (snd (getStatus s)) = FocusAbsPosNP_s s"
    unfolding e using a b 2 by simp
  show "isSimulation (snd (getStatus s)) = isSimulation s"
    unfolding e using a b 2 by simp
qed

lemma getTemperature_fields:
  shows "currentPosition (snd (getTemperature s)) = currentPosition s"
    and "FocusAbsPosNP_s (snd (getTemperature s)) = FocusAbsPosNP_s s"
    and "isSimulation (snd (getTemperature s)) = isSimulation s"
proof -
  define s1 where "s1 = snd (dispatch_command (of_char (CHR ''T'')) 0 s)"
  note a = same_driver_fields [OF same_driver_dispatch_command [of s "of_char (CHR ''T'')" 0],
             folded s1_def]
  have e: "\<exists>t h. snd (getTemperature s)
             = (if isSimulation s \<or> fst (dispatch_command (of_char (CHR ''T'')) 0 s)
                then (if isSimulation s then s else s1)
                       \<lparr>currentTemperature := t, currentHumidity := h\<rparr>
                else s1)"
    by (auto simp add: getTemperature_def s1_def split: prod.splits bool.splits)
  then obtain t h where e: "snd (getTemperature s)
             = (if isSimulation s \<or> fst (dispatch_command (of_char (CHR ''T'')) 0 s)
                then (if isSimulation s then s else s1)
                       \<lparr>currentTemperature := t, currentHumidity := h\<rparr>
                else s1)"
    by blast
  show "currentPosition (snd (getTemperature s)) = currentPosition s"
    unfolding e using a by simp
  show "FocusAbsPosNP_s (snd (getTemperature s)) = FocusAbsPosNP_s s"
    unfolding e using a by simp
  show "isSimulation (snd (getTemperature s)) = isSimulation s"
    unfolding e using a by simp
qed

lemma TimerHit_status_fields:
  shows "currentPosition (TimerHit_status s) = currentPosition s"
    and "isSimulation (TimerHit_status s) = isSimulation s"
    and "FocusAbsPosNP_s (TimerHit_status s)
           = (if isMoving s then IPS_BUSY
              else if FocusAbsPosNP_s s \<noteq> IPS_IDLE then IPS_OK else IPS_IDLE)"
  by (simp_all add: TimerHit_status_def Let_def)

lemma TimerHit_environment_fields:
  shows "currentPosition (TimerHit_environment s) = currentPosition s"
    and "isSimulation (TimerHit_environment s) = isSimulation s"
    and "FocusAbsPosNP_s (TimerHit_environment s) = FocusAbsPosNP_s s"
proof -
  obtain ok t where g: "getTemperature s = (ok, t)"
    by fastforce
  then have t: "t = snd (getTemperature s)"
    by simp
  have "currentPosition (TimerHit_environment s) = currentPosition t
          \<and> isSimulation (TimerHit_environment s) = isSimulation t
          \<and> FocusAbsPosNP_s (TimerHit_environment s) = FocusAbsPosNP_s t"
    by (cases ok) (simp_all add: TimerHit_environment_def g)
  then show "currentPosition (TimerHit_environment s) = currentPosition s"
    and "isSimulation (TimerHit_environment s) = isSimulation s"
    and "FocusAbsPosNP_s (TimerHit_environment s) = FocusAbsPosNP_s s"
    by (simp_all add: t getTemperature_fields)
qed

lemma getPosition_written:
  assumes "\<not> isSimulation s"
  shows "tty_written (snd (getPosition s))
           = tty_written s @ [\<lparr>cmd_M = 0x4D, cmd_k = 0x50, cmd_a = 0, cmd_b = 0, cmd_c = 0,
                                cmd_d = 0, cmd_n = 0, cmd_z = 0x9D\<rparr>]"
proof -
  have c: "send_command_frame (of_char (CHR ''P'')) 0
          = Some \<lparr>cmd_M = 0x4D, cmd_k = 0x50, cmd_a = 0, cmd_b = 0, cmd_c = 0, cmd_d = 0,
                  cmd_n = 0, cmd_z = 0x9D\<rparr>"
    by (simp add: send_command_frame_def Let_def calculate_checksum_def)
  have "snd (getPosition s)
          = (let d = dispatch_command (of_char (CHR ''P'')) 0 s
             in if fst d then (snd d)\<lparr>currentPosition := payload32 (currentResponse (snd d))\<rparr>
                else snd d)"
    using assms by (simp add: getPosition_def Let_def split: prod.splits bool.splits)
  then show ?thesis
    using dispatch_command_written [OF assms c] by (simp add: Let_def)
qed

text \<open>
  Claim C4. Take a tick of a connected driver whose status read succeeds, leaving the
  driver \<open>s1\<close>, and whose absolute-position status is not idle (on entry, or because the
  status read found the focuser moving). Let \<open>b\<close> be the driver when the tick reaches its
  position step; it still caches the position of the start of the tick. Then the tick
  performs \<^verbatim>\<open>getPosition\<close> on \<open>b\<close> (outside simulation the P request is the last frame
  handed to the line), and the status it leaves is BUSY when the read succeeds with a
  position other than the one cached at the start, OK when it succeeds with the same
  position, and ALERT when it fails.
\<close>

theorem TimerHit_position_read:
  assumes "isConnected s"
    and "getStatus s = (True, s1)"
    and "FocusAbsPosNP_s s \<noteq> IPS_IDLE \<or> isMoving s1"
    and "b = TimerHit_environment (TimerHit_status s1)"
    and "getPosition b = (ok, p)"
  shows "currentPosition b = currentPosition s
         \<and> (\<not> isSimulation s \<longrightarrow>
              tty_written (TimerHit s)
                = tty_written b @ [\<lparr>cmd_M = 0x4D, cmd_k = 0x50, cmd_a = 0, cmd_b = 0, cmd_c = 0,
                                     cmd_d = 0, cmd_n = 0, cmd_z = 0x9D\<rparr>])
         \<and> tty_reads (TimerHit s) = tty_reads p
         \<and> currentPosition (TimerHit s) = currentPosition p
         \<and> FocusAbsPosNP_s (TimerHit s)
             = (if ok then (if currentPosition p \<noteq> currentPosition s then IPS_BUSY else IPS_OK)
                else IPS_ALERT)"
proof -
  have s1: "s1 = snd (getStatus s)"
    using assms(2) by simp
  have pos1: "currentPosition s1 = currentPosition s"
    and abs1: "FocusAbsPosNP_s s1 = FocusAbsPosNP_s s"
    and sim1: "isSimulation s1 = isSimulation s"
    unfolding s1 by (rule getStatus_fields)+
  have posb: "currentPosition b = currentPosition s"
    unfolding assms(4) by (simp add: TimerHit_environment_fields TimerHit_status_fields pos1)
  have simb: "isSimulation b = isSimulation s"
    unfolding assms(4) by (simp add: TimerHit_environment_fields TimerHit_status_fields sim1)
  have absb: "FocusAbsPosNP_s b \<noteq> IPS_IDLE"
    unfolding assms(4) using assms(3)
    by (auto simp add: TimerHit_environment_fields TimerHit_status_fields abs1)
  have t: "TimerHit s = TimerHit_position (currentPosition s) b"
    using assms(1,2,4) by (simp add: TimerHit_def Let_def)
  have r: "TimerHit s
             = (if ok then
                  if currentPosition s \<noteq> currentPosition p then
                    p\<lparr>FocusAbsPosNP_s := IPS_BUSY, StatusS_1_s := ISS_ON,
                      FocusAbsPosN_value := real_of_int (sint (currentPosition p))\<rparr>
                  else p\<lparr>StatusS_1_s := ISS_OFF, FocusAbsPosNP_s := IPS_OK\<rparr>
                else p\<lparr>FocusAbsPosNP_s := IPS_ALERT\<rparr>)"
    unfolding t using absb assms(5) by (simp add: TimerHit_position_def)
  have w: "tty_written (TimerHit s) = tty_written p"
    unfolding r by simp
  have "\<not> isSimulation s \<longrightarrow>
              tty_written (TimerHit s)
                = tty_written b @ [\<lparr>cmd_M = 0x4D, cmd_k = 0x50, cmd_a = 0, cmd_b = 0, cmd_c = 0,
                                     cmd_d = 0, cmd_n = 0, cmd_z = 0x9D\<rparr>]"
    using getPosition_written [of b] assms(5) simb w by simp
  moreover have "tty_reads (TimerHit s) = tty_reads p"
    unfolding r by simp
  moreover have "currentPosition (TimerHit s) = currentPosition p"
    unfolding r by simp
  moreover have "FocusAbsPosNP_s (TimerHit s)
             = (if ok then (if currentPosition p \<noteq> currentPosition s then IPS_BUSY else IPS_OK)
                else IPS_ALERT)"
    unfolding r by auto
  ultimately show ?thesis
    using posb by blast
qed

text \<open>
  A tick of an idle driver while the focuser moves: the device answers I with moving, W
  with absolute, T with 85.0 per cent and -2.0 degrees, and P with 100
  (\<^verbatim>\<open>4D 50 00 00 00 64 00 01\<close>). The cached position goes from 0 to 100 and the status
  to BUSY.
\<close>

theorem TimerHit_position_read_witness:
  "isConnected (example_driver False [TTY_OK, TTY_OK, TTY_OK, TTY_OK]
      [(TTY_OK, [0x4D, 0x49, 0, 0, 0, 1, 0, 0x97]), (TTY_OK, [0x4D, 0x57, 0, 0, 0, 1, 0, 0xA5]),
       (TTY_OK, [0x4D, 0x54, 3, 0x52, 0xFF, 0xEC, 0, 0xE1]),
       (TTY_OK, [0x4D, 0x50, 0, 0, 0, 0x64, 0, 1])])
   \<and> \<not> isSimulation (example_driver False [TTY_OK, TTY_OK, TTY_OK, TTY_OK]
      [(TTY_OK, [0x4D, 0x49, 0, 0, 0, 1, 0, 0x97]), (TTY_OK, [0x4D, 0x57, 0, 0, 0, 1, 0, 0xA5]),
       (TTY_OK, [0x4D, 0x54, 3, 0x52, 0xFF, 0xEC, 0, 0xE1]),
       (TTY_OK, [0x4D, 0x50, 0, 0, 0, 0x64, 0, 1])])
   \<and> fst (getStatus (example_driver False [TTY_OK, TTY_OK, TTY_OK, TTY_OK]
      [(TTY_OK, [0x4D, 0x49, 0, 0, 0, 1, 0, 0x97]), (TTY_OK, [0x4D, 0x57, 0, 0, 0, 1, 0, 0xA5]),
       (TTY_OK, [0x4D, 0x54, 3, 0x52, 0xFF, 0xEC, 0, 0xE1]),
       (TTY_OK, [0x4D, 0x50, 0, 0, 0, 0x64, 0, 1])]))
   \<and> isMoving (snd (getStatus (example_driver False [TTY_OK, TTY_OK, TTY_OK, TTY_OK]
      [(TTY_OK, [0x4D, 0x49, 0, 0, 0, 1, 0, 0x97]), (TTY_OK, [0x4D, 0x57, 0, 0, 0, 1, 0, 0xA5]),
       (TTY_OK, [0x4D, 0x54, 3, 0x52, 0xFF, 0xEC, 0, 0xE1]),
       (TTY_OK, [0x4D, 0x50, 0, 0, 0, 0x64, 0, 1])])))
   \<and> currentPosition (TimerHit (example_driver False [TTY_OK, TTY_OK, TTY_OK, TTY_OK]
      [(TTY_OK, [0x4D, 0x49, 0, 0, 0, 1, 0, 0x97]), (TTY_OK, [0x4D, 0x57, 0, 0, 0, 1, 0, 0xA5]),
       (TTY_OK, [0x4D, 0x54, 3, 0x52, 0xFF, 0xEC, 0, 0xE1]),
       (TTY_OK, [0x4D, 0x50, 0, 0, 0, 0x64, 0, 1])])) = 100
   \<and> FocusAbsPosNP_s (TimerHit (example_driver False [TTY_OK, TTY_OK, TTY_OK, TTY_OK]
      [(TTY_OK, [0x4D, 0x49, 0, 0, 0, 1, 0, 0x97]), (TTY_OK, [0x4D, 0x57, 0, 0, 0, 1, 0, 0xA5]),
       (TTY_OK, [0x4D, 0x54, 3, 0x52, 0xFF, 0xEC, 0, 0xE1]),
       (TTY_OK, [0x4D, 0x50, 0, 0, 0, 0x64, 0, 1])])) = IPS_BUSY"
proof -
  let ?s = "example_driver False [TTY_OK, TTY_OK, TTY_OK, TTY_OK]
      [(TTY_OK, [0x4D, 0x49, 0, 0, 0, 1, 0, 0x97]), (TTY_OK, [0x4D, 0x57, 0, 0, 0, 1, 0, 0xA5]),
       (TTY_OK, [0x4D, 0x54, 3, 0x52, 0xFF, 0xEC, 0, 0xE1]),
       (TTY_OK, [0x4D, 0x50, 0, 0, 0, 0x64, 0, 1])]"
  let ?b = "TimerHit_environment (TimerHit_status (snd (getStatus ?s)))"
  have 1: "isConnected ?s" and n: "\<not> isSimulation ?s" and z: "currentPosition ?s = 0"
    by (simp_all add: example_driver_def)
  have f: "fst (getStatus ?s)" and m: "isMoving (snd (getStatus ?s))"
    by (simp_all add: example_driver_def getStatus_def exchange_defs)
  from f have 2: "getStatus ?s = (True, snd (getStatus ?s))"
    by (cases "getStatus ?s") simp
  from m have 3: "FocusAbsPosNP_s ?s \<noteq> IPS_IDLE \<or> isMoving (snd (getStatus ?s))"
    by simp
  have g: "fst (getPosition ?b)" and c: "currentPosition (snd (getPosition ?b)) = 100"
    by (simp_all add: example_driver_def getStatus_def getTemperature_def getPosition_def
          TimerHit_status_def TimerHit_environment_def exchange_defs)
  from g have 5: "getPosition ?b = (True, snd (getPosition ?b))"
    by (cases "getPosition ?b") simp
  from TimerHit_position_read [OF 1 2 3 refl 5] c z
  have "currentPosition (TimerHit ?s) = 100" and "FocusAbsPosNP_s (TimerHit ?s) = IPS_BUSY"
    by simp_all
  with 1 n f m show ?thesis
    by blast
qed

text \<open>
  Three ticks while a move runs and ends: the device reports moving, moving, idle and the
  positions 100, 200, 200. The status goes BUSY, BUSY, OK.
\<close>

lemmas tick_defs =
  TimerHit_def TimerHit_status_def TimerHit_environment_def TimerHit_position_def
  getStatus_def getTemperature_def getPosition_def

lemma TimerHit_three_ticks:
  "FocusAbsPosNP_s (TimerHit polling_driver) = IPS_BUSY
   \<and> currentPosition (TimerHit polling_driver) = 100
   \<and> FocusAbsPosNP_s (TimerHit (TimerHit polling_driver)) = IPS_BUSY
   \<and> currentPosition (TimerHit (TimerHit polling_driver)) = 200
   \<and> FocusAbsPosNP_s (TimerHit (TimerHit (TimerHit polling_driver))) = IPS_OK
   \<and> currentPosition (TimerHit (TimerHit (TimerHit polling_driver))) = 200"
  by (simp add: polling_driver_def example_driver_def tick_defs exchange_defs)

end
